theory Spec2Isabelle
  imports Main
begin

section \<open>Data model\<close>

text \<open>
  Document identifiers (Mongo ObjectIds) are natural numbers handed out by a counter of
  the store. Instants are milliseconds since the epoch, as \<open>Date.getTime()\<close> gives them.
  Amounts, durations, priorities and renewal limits are schema \<open>Number\<close>s holding
  integers. Integers are unbounded here: the range of \<open>Date\<close> and the precision of
  \<open>Number\<close> are not part of the model.
\<close>

type_synonym oid = nat
type_synonym time = int

datatype action = Purchase | Renew | Upgrade

datatype payment_status = PPending | PCompleted | PFailed | PCancelled

datatype subscription_status = SActive | SExpired | SCancelled | SPending

datatype billing_status = BSuccess | BFailed

text \<open>models/Plan.js: the fields the controllers read, and \<open>allowDowngrade\<close>.\<close>

record plan =
  plan_id :: oid
  plan_name :: string
  plan_amount :: int
  duration :: int
  priority :: int
  renewLimit :: int
  allowDowngrade :: bool

text \<open>The body of the verify request, kept as the payment's \<open>gatewayResponse\<close>.\<close>

record verify_request =
  razorpay_order_id :: string
  razorpay_payment_id :: string
  razorpay_signature :: string
  vr_paymentId :: "oid option"

text \<open>The payment entity of a webhook payload, and the payload itself.\<close>

record payment_entity =
  pe_order_id :: string
  pe_id :: string
  pe_status :: string

record webhook_payload =
  wp_event :: string
  wp_entity :: "payment_entity option"

text \<open>
  \<open>gatewayResponse\<close> is a Mixed field: the verify path stores the request body in it, the
  webhook path adds one entry per entity status under the key \<open>webhook\<close>.
\<close>

record gateway_response =
  gr_body :: "verify_request option"
  gr_webhook :: "(string \<times> payment_entity) list"

text \<open>models/Payment.js\<close>

record payment =
  pay_id :: oid
  pay_user :: oid
  pay_plan :: oid
  pay_subscription :: "oid option"
  pay_action :: action
  targetSubscription :: "oid option"
  pay_amount :: int
  razorpayOrderId :: "string option"
  razorpayPaymentId :: "string option"
  razorpaySignature :: "string option"
  pay_status :: payment_status
  receipt :: "string option"
  invoiceNumber :: "string option"
  invoiceGeneratedAt :: "time option"
  gatewayResponse :: "gateway_response option"
  webhookReceived :: bool
  webhookData :: "webhook_payload option"
  completedAt :: "time option"
  failureReason :: "string option"
  pay_createdAt :: time

text \<open>models/Subscription.js\<close>

record billing_entry =
  be_date :: time
  be_amount :: int
  be_paymentId :: oid
  be_status :: billing_status

record subscription =
  sub_id :: oid
  sub_user :: oid
  sub_plan :: oid
  sub_status :: subscription_status
  startDate :: time
  endDate :: time
  paymentId :: "oid option"
  cancelledAt :: "time option"
  cancellationReason :: "string option"
  billingHistory :: "billing_entry list"

text \<open>
  The persisted collections, in insertion order (the order \<open>findOne\<close> scans them in), and
  the counter the next \<open>_id\<close> is taken from.
\<close>

record state =
  plans :: "plan list"
  payments :: "payment list"
  subscriptions :: "subscription list"
  next_oid :: oid

section \<open>Persistence\<close>

definition Plan_findById :: "state \<Rightarrow> oid \<Rightarrow> plan option" where
  "Plan_findById s i = find (\<lambda>p. plan_id p = i) (plans s)"

definition Payment_findById :: "state \<Rightarrow> oid \<Rightarrow> payment option" where
  "Payment_findById s i = find (\<lambda>p. pay_id p = i) (payments s)"

definition Subscription_findById :: "state \<Rightarrow> oid \<Rightarrow> subscription option" where
  "Subscription_findById s i = find (\<lambda>x. sub_id x = i) (subscriptions s)"

text \<open>\<open>doc.save()\<close> of a loaded document writes it back under its \<open>_id\<close>.\<close>

definition save_payment :: "payment \<Rightarrow> state \<Rightarrow> state" where
  "save_payment p s =
     s\<lparr>payments := map (\<lambda>q. if pay_id q = pay_id p then p else q) (payments s)\<rparr>"

definition save_subscription :: "subscription \<Rightarrow> state \<Rightarrow> state" where
  "save_subscription x s =
     s\<lparr>subscriptions := map (\<lambda>y. if sub_id y = sub_id x then x else y) (subscriptions s)\<rparr>"

text \<open>JavaScript truthiness of an optional string: present and not empty.\<close>

fun truthy :: "string option \<Rightarrow> bool" where
  "truthy None = False"
| "truthy (Some v) = (v \<noteq> [])"

section \<open>Payment methods (models/Payment.js)\<close>

text \<open>
  The pre-save hook, for a document that is not new: when the status was modified and is
  now completed and there is no invoice number yet, it writes the invoice number, its
  generation time and \<open>completedAt\<close>. \<open>old\<close> is the status the document was loaded with;
  \<open>rnd\<close> is the token the hook generates (\<open>INV-<date>-<random>\<close>).
\<close>

definition pre_save :: "time \<Rightarrow> string \<Rightarrow> payment_status \<Rightarrow> payment \<Rightarrow> payment" where
  "pre_save now rnd old p =
     (if pay_status p \<noteq> old \<and> pay_status p = PCompleted \<and> \<not> truthy (invoiceNumber p)
      then p\<lparr>invoiceNumber := Some (''INV-'' @ rnd), invoiceGeneratedAt := Some now,
             completedAt := Some now\<rparr>
      else p)"

definition markCompleted ::
  "time \<Rightarrow> string \<Rightarrow> string option \<Rightarrow> string option \<Rightarrow> gateway_response option
     \<Rightarrow> payment \<Rightarrow> payment" where
  "markCompleted now rnd rpid rsig gr p =
     pre_save now rnd (pay_status p)
       (p\<lparr>pay_status := PCompleted,
          razorpayPaymentId := (if truthy rpid then rpid else razorpayPaymentId p),
          razorpaySignature := (if truthy rsig then rsig else razorpaySignature p),
          gatewayResponse := (case gr of Some g \<Rightarrow> Some g | None \<Rightarrow> gatewayResponse p),
          completedAt := Some now\<rparr>)"

definition markFailed :: "string \<Rightarrow> payment \<Rightarrow> payment" where
  "markFailed reason p =
     p\<lparr>pay_status := PFailed,
       failureReason := Some (if reason = [] then ''Payment failed'' else reason)\<rparr>"


section \<open>Calendar months\<close>

text \<open>
  \<open>new Date(now.getFullYear(), now.getMonth(), 1)\<close> and the same with \<open>getMonth() + 1\<close>:
  the first instant of the month of \<open>now\<close> and of the month after it. The source reads
  year and month in the local zone of the server; the server's zone is taken to be UTC
  here, so within a zone's offset of a month boundary the two can name different months.
  Days are counted from the epoch in the proleptic Gregorian calendar;
  months are numbered from 1 here, and month 13 is January of the next year, as the
  \<open>Date\<close> constructor normalises it.
\<close>

definition ms_per_day :: int where
  "ms_per_day = 24 * 60 * 60 * 1000"

definition civil_from_days :: "int \<Rightarrow> int \<times> int" where
  "civil_from_days z0 =
     (let z = z0 + 719468;
          era = z div 146097;
          doe = z mod 146097;
          yoe = (doe - doe div 1460 + doe div 36524 - doe div 146096) div 365;
          doy = doe - (365 * yoe + yoe div 4 - yoe div 100);
          mp = (5 * doy + 2) div 153;
          m = (if mp < 10 then mp + 3 else mp - 9);
          y = yoe + era * 400
      in (if m \<le> 2 then y + 1 else y, m))"

definition days_from_civil :: "int \<Rightarrow> int \<Rightarrow> int" where
  "days_from_civil y0 m =
     (let y = (if m \<le> 2 then y0 - 1 else y0);
          era = y div 400;
          yoe = y mod 400;
          doy = (153 * (if m > 2 then m - 3 else m + 9) + 2) div 5;
          doe = yoe * 365 + yoe div 4 - yoe div 100 + doy
      in era * 146097 + doe - 719468)"

definition startOfMonth :: "time \<Rightarrow> time" where
  "startOfMonth now =
     (case civil_from_days (now div ms_per_day) of
        (y, m) \<Rightarrow> days_from_civil y m * ms_per_day)"

definition startOfNextMonth :: "time \<Rightarrow> time" where
  "startOfNextMonth now =
     (case civil_from_days (now div ms_per_day) of
        (y, m) \<Rightarrow>
          (if m = 12 then days_from_civil (y + 1) 1 else days_from_civil y (m + 1))
            * ms_per_day)"

section \<open>Responses\<close>

datatype api_error = ApiError string nat

text \<open>
  The outcome of the signature helper of utils/validator.js, which is outside this
  development: it returns true, returns false, or throws when the secret is unset.
\<close>

datatype sig_outcome = SigOk | SigBad | SigThrows

type_synonym verifier = "string \<Rightarrow> string \<Rightarrow> string \<Rightarrow> sig_outcome"

text \<open>\<open>.populate('plan')\<close>: the subscription together with its plan document, if any.\<close>

type_synonym populated = "subscription \<times> plan option"

datatype verify_ok =
    AlreadyProcessed payment "populated option"
  | SubscriptionRenewed subscription
  | PlanUpgraded subscription
  | SubscriptionActivated subscription

definition populate :: "state \<Rightarrow> subscription option \<Rightarrow> populated option" where
  "populate s r = (case r of None \<Rightarrow> None | Some x \<Rightarrow> Some (x, Plan_findById s (sub_plan x)))"

section \<open>Subscription statics and hooks (models/Subscription.js)\<close>

text \<open>
  \<open>Subscription.findOne({ user, status: 'active', endDate: { $gt: now } })\<close>: the first
  such document.
\<close>

definition findActive :: "state \<Rightarrow> oid \<Rightarrow> time \<Rightarrow> subscription option" where
  "findActive s u now =
     find (\<lambda>x. sub_user x = u \<and> sub_status x = SActive \<and> endDate x > now) (subscriptions s)"

text \<open>
  The query of the renewal cap: completed renew-payments against the subscription that
  were created within the month of \<open>now\<close>.
\<close>

definition renewCount :: "state \<Rightarrow> oid \<Rightarrow> time \<Rightarrow> int" where
  "renewCount s subId now =
     int (length (filter (\<lambda>p. pay_action p = Renew \<and> targetSubscription p = Some subId
                              \<and> pay_status p = PCompleted
                              \<and> startOfMonth now \<le> pay_createdAt p
                              \<and> pay_createdAt p < startOfNextMonth now) (payments s)))"

definition countRenewsThisMonth :: "state \<Rightarrow> time \<Rightarrow> oid \<Rightarrow> int" where
  "countRenewsThisMonth s now subId = renewCount s subId now"

text \<open>
  \<open>Subscription.create\<close> at the instant \<open>now\<close>: the document gets a fresh \<open>_id\<close>. The
  pre-validate hook fills a missing end date: the plan's duration in days after the start
  date, or, when the plan is not found, 30 days after \<open>Date.now()\<close>.
\<close>

definition Subscription_create ::
  "time \<Rightarrow> oid \<Rightarrow> oid \<Rightarrow> oid \<Rightarrow> time \<Rightarrow> time option \<Rightarrow> billing_entry list \<Rightarrow> state
     \<Rightarrow> subscription \<times> state" where
  "Subscription_create now u pl pid start end_opt hist s =
     (let e = (case end_opt of
                 Some e \<Rightarrow> e
               | None \<Rightarrow>
                   (case Plan_findById s pl of
                      None \<Rightarrow> now + 30 * ms_per_day
                    | Some p \<Rightarrow> start + duration p * ms_per_day));
          x = \<lparr>sub_id = next_oid s, sub_user = u, sub_plan = pl, sub_status = SActive,
               startDate = start, endDate = e, paymentId = Some pid, cancelledAt = None,
               cancellationReason = None, billingHistory = hist\<rparr>
      in (x, s\<lparr>subscriptions := subscriptions s @ [x], next_oid := Suc (next_oid s)\<rparr>))"

definition expireOldSubscriptions :: "time \<Rightarrow> state \<Rightarrow> state" where
  "expireOldSubscriptions now s =
     s\<lparr>subscriptions :=
         map (\<lambda>x. if sub_status x = SActive \<and> endDate x < now
                  then x\<lparr>sub_status := SExpired\<rparr> else x) (subscriptions s)\<rparr>"


section \<open>verifyPayment (controllers/paymentController.js)\<close>

text \<open>
  Every handler takes the store and returns its response with the store it leaves. The
  clock reads of one handler run are the one instant \<open>now\<close>. An \<open>ApiError\<close> passed to
  \<open>next\<close>, and an exception that the async wrapper passes on, are the left summand.
  Reads and writes of the store succeed: the catch blocks around \<open>save\<close> and \<open>create\<close>
  have no branch here. The best-effort e-mail after a success has no effect on the store
  or the response and is left out.
\<close>

type_synonym 'a response = "(api_error + 'a) \<times> state"

definition billing_success :: "time \<Rightarrow> payment \<Rightarrow> billing_entry" where
  "billing_success now p =
     \<lparr>be_date = now, be_amount = pay_amount p, be_paymentId = pay_id p, be_status = BSuccess\<rparr>"

text \<open>Rejecting after the payment was loaded: mark it failed, save, pass the error on.\<close>

definition reject :: "string \<Rightarrow> string \<Rightarrow> nat \<Rightarrow> payment \<Rightarrow> state \<Rightarrow> 'a response" where
  "reject reason msg code p s = (Inl (ApiError msg code), save_payment (markFailed reason p) s)"

text \<open>
  The renew branch. \<open>plan\<close> is the plan of the payment; \<open>planForSub\<close> is the plan of the
  subscription, and reading \<open>renewLimit\<close> of a missing one throws a TypeError.
\<close>

definition verify_renew :: "time \<Rightarrow> payment \<Rightarrow> plan \<Rightarrow> state \<Rightarrow> verify_ok response" where
  "verify_renew now p pl s =
     (case (case (case targetSubscription p of Some t \<Rightarrow> Some t | None \<Rightarrow> pay_subscription p) of
              None \<Rightarrow> None
            | Some subId \<Rightarrow> Subscription_findById s subId) of
        None \<Rightarrow>
          reject ''Target subscription not found for renewal''
                 ''Target subscription not found for renewal'' 400 p s
      | Some sub \<Rightarrow>
          (case Plan_findById s (sub_plan sub) of
             None \<Rightarrow> (Inl (ApiError ''TypeError'' 500), s)
           | Some planForSub \<Rightarrow>
               if renewLimit planForSub > 0
                  \<and> renewCount s (sub_id sub) now \<ge> renewLimit planForSub
               then reject ''Renew limit exceeded for this month''
                           ''You have reached the maximum renewals for this period'' 400 p s
               else
                 (let currentEnd = (if endDate sub > now then endDate sub else now);
                      sub' = sub\<lparr>endDate := currentEnd + duration pl * ms_per_day,
                                billingHistory := billingHistory sub @ [billing_success now p],
                                sub_status := SActive\<rparr>;
                      s1 = save_subscription sub' s;
                      s2 = save_payment (p\<lparr>pay_subscription := Some (sub_id sub)\<rparr>) s1
                  in (Inr (SubscriptionRenewed sub'), s2))))"

definition verify_upgrade :: "time \<Rightarrow> payment \<Rightarrow> plan \<Rightarrow> state \<Rightarrow> verify_ok response" where
  "verify_upgrade now p pl s =
     (case targetSubscription p of
        None \<Rightarrow>
          reject ''Target subscription missing for upgrade''
                 ''Target subscription is required for upgrade'' 400 p s
      | Some t \<Rightarrow>
          (case Subscription_findById s t of
             None \<Rightarrow>
               reject ''Old subscription not found for upgrade''
                      ''Old subscription not found for upgrade'' 400 p s
           | Some oldSub \<Rightarrow>
               (case Plan_findById s (sub_plan oldSub) of
                  None \<Rightarrow> reject ''Old plan not found for upgrade'' ''Old plan not found'' 400 p s
                | Some oldPlan \<Rightarrow>
                    if priority oldPlan \<ge> priority pl
                    then reject ''Downgrade / same-level upgrade attempted''
                           ''Cannot downgrade or choose same level plan. Upgrade only to higher plans.''
                           400 p s
                    else
                      (let s1 = save_subscription (oldSub\<lparr>sub_status := SExpired\<rparr>) s;
                           (newSub, s2) =
                             Subscription_create now (pay_user p) (pay_plan p) (pay_id p) now
                               (Some (now + duration pl * ms_per_day))
                               [billing_success now p] s1;
                           s3 = save_payment (p\<lparr>pay_subscription := Some (sub_id newSub)\<rparr>) s2
                       in (Inr (PlanUpgraded newSub), s3)))))"

definition verify_purchase :: "time \<Rightarrow> payment \<Rightarrow> plan \<Rightarrow> state \<Rightarrow> verify_ok response" where
  "verify_purchase now p pl s =
     (if (case findActive s (pay_user p) now of
            None \<Rightarrow> False
          | Some existingActive \<Rightarrow> sub_plan existingActive = plan_id pl)
      then reject ''User already has an active subscription for this plan''
                  ''You already have an active subscription for this plan'' 400 p s
      else
        (let (subscription, s1) =
               Subscription_create now (pay_user p) (pay_plan p) (pay_id p) now
                 (Some (now + duration pl * ms_per_day)) [billing_success now p] s;
             s2 = save_payment (p\<lparr>pay_subscription := Some (sub_id subscription)\<rparr>) s1
         in (Inr (SubscriptionActivated subscription), s2)))"

text \<open>
  After the signature check: replay for a completed and linked payment; otherwise mark
  completed, save, load the plan and branch on the action.
\<close>

definition reconcile ::
  "time \<Rightarrow> string \<Rightarrow> verify_request \<Rightarrow> payment \<Rightarrow> state \<Rightarrow> verify_ok response" where
  "reconcile now rnd req p s =
     (if pay_status p = PCompleted \<and> pay_subscription p \<noteq> None
      then (Inr (AlreadyProcessed p
                  (populate s (case pay_subscription p of
                                 None \<Rightarrow> None
                               | Some i \<Rightarrow> Subscription_findById s i))), s)
      else
        (let p1 = markCompleted now rnd (Some (razorpay_payment_id req))
                    (Some (razorpay_signature req))
                    (Some \<lparr>gr_body = Some req, gr_webhook = []\<rparr>) p;
             s1 = save_payment p1 s
         in case Plan_findById s1 (pay_plan p1) of
              None \<Rightarrow> reject ''Associated plan not found'' ''Associated plan not found'' 500 p1 s1
            | Some pl \<Rightarrow>
                (case pay_action p1 of
                   Renew \<Rightarrow> verify_renew now p1 pl s1
                 | Upgrade \<Rightarrow> verify_upgrade now p1 pl s1
                 | Purchase \<Rightarrow> verify_purchase now p1 pl s1)))"

definition verifyPayment ::
  "verifier \<Rightarrow> time \<Rightarrow> string \<Rightarrow> verify_request \<Rightarrow> state \<Rightarrow> verify_ok response" where
  "verifyPayment vsig now rnd req s =
     (if razorpay_order_id req = [] \<or> razorpay_payment_id req = []
         \<or> razorpay_signature req = []
      then (Inl (ApiError ''Missing required fields for verification'' 400), s)
      else
        (case vr_paymentId req of
           None \<Rightarrow> (Inl (ApiError ''Missing required fields for verification'' 400), s)
         | Some pid \<Rightarrow>
             (case Payment_findById s pid of
                None \<Rightarrow> (Inl (ApiError ''Payment record not found'' 404), s)
              | Some p \<Rightarrow>
                  if truthy (razorpayOrderId p) \<and> razorpayOrderId p \<noteq> Some (razorpay_order_id req)
                  then (Inl (ApiError ''Order id mismatch'' 400), s)
                  else
                    (case vsig (razorpay_order_id req) (razorpay_payment_id req)
                            (razorpay_signature req) of
                       SigThrows \<Rightarrow>
                         reject ''Signature verification error'' ''Payment verification failed'' 400 p s
                     | SigBad \<Rightarrow>
                         reject ''Signature verification failed'' ''Payment verification failed'' 400 p s
                     | SigOk \<Rightarrow> reconcile now rnd req p s))))"


section \<open>createOrder (controllers/paymentController.js)\<close>

record create_order_request =
  co_planId :: "oid option"
  co_action :: "string option"
  co_subscriptionId :: "oid option"

text \<open>What the gateway's \<open>orders.create\<close> gives back; \<open>Inl\<close> is the message it throws.\<close>

record gateway_order =
  order_id :: string
  order_amount :: int
  order_currency :: string

datatype order_created = OrderCreated string int string oid

fun parse_action :: "string \<Rightarrow> action option" where
  "parse_action a =
     (if a = ''purchase'' then Some Purchase
      else if a = ''renew'' then Some Renew
      else if a = ''upgrade'' then Some Upgrade
      else None)"

text \<open>
  \<open>Payment.create\<close>: a pending payment with a fresh \<open>_id\<close>; the pre-save hook of a new
  document writes the receipt token.
\<close>

definition Payment_create ::
  "time \<Rightarrow> string \<Rightarrow> oid \<Rightarrow> oid \<Rightarrow> int \<Rightarrow> action \<Rightarrow> oid option \<Rightarrow> state \<Rightarrow> payment \<times> state" where
  "Payment_create now rnd u pl amt act target s =
     (let p = \<lparr>pay_id = next_oid s, pay_user = u, pay_plan = pl, pay_subscription = None,
               pay_action = act, targetSubscription = target, pay_amount = amt,
               razorpayOrderId = None, razorpayPaymentId = None, razorpaySignature = None,
               pay_status = PPending, receipt = Some (''RCPT_'' @ rnd), invoiceNumber = None,
               invoiceGeneratedAt = None, gatewayResponse = None, webhookReceived = False,
               webhookData = None, completedAt = None, failureReason = None,
               pay_createdAt = now\<rparr>
      in (p, s\<lparr>payments := payments s @ [p], next_oid := Suc (next_oid s)\<rparr>))"

text \<open>
  The renew/upgrade arm of the target check gives the target subscription; the purchase
  arm refuses when the first active subscription of the user is on the requested plan.
\<close>

definition check_target ::
  "oid \<Rightarrow> time \<Rightarrow> action \<Rightarrow> plan \<Rightarrow> oid option \<Rightarrow> state \<Rightarrow> api_error + subscription option" where
  "check_target u now act pl sid s =
     (if act = Renew \<or> act = Upgrade
      then
        (case sid of
           None \<Rightarrow> Inl (ApiError ''subscriptionId is required for renew/upgrade'' 400)
         | Some i \<Rightarrow>
             (case Subscription_findById s i of
                None \<Rightarrow> Inl (ApiError ''Target subscription not found'' 404)
              | Some t \<Rightarrow>
                  if sub_user t \<noteq> u
                  then Inl (ApiError ''Target subscription not owned by user'' 403)
                  else if act = Upgrade \<and> sub_plan t = plan_id pl
                  then Inl (ApiError ''Cannot upgrade to the same plan'' 400)
                  else Inr (Some t)))
      else
        (case findActive s u now of
           None \<Rightarrow> Inr None
         | Some existingActive \<Rightarrow>
             if sub_plan existingActive = plan_id pl
             then Inl (ApiError
               ''You already have an active subscription for this plan. Use renew or upgrade.'' 400)
             else Inr None))"

definition createOrder ::
  "oid option \<Rightarrow> time \<Rightarrow> string \<Rightarrow> (string + gateway_order) \<Rightarrow> create_order_request \<Rightarrow> state
     \<Rightarrow> order_created response" where
  "createOrder auth now rnd gw req s =
     (case auth of
        None \<Rightarrow> (Inl (ApiError ''Not authenticated'' 401), s)
      | Some u \<Rightarrow>
          (case parse_action (case co_action req of None \<Rightarrow> ''purchase'' | Some a \<Rightarrow> a) of
             None \<Rightarrow> (Inl (ApiError ''Invalid action'' 400), s)
           | Some act \<Rightarrow>
               (case co_planId req of
                  None \<Rightarrow> (Inl (ApiError ''planId is required'' 400), s)
                | Some planId \<Rightarrow>
                    (case Plan_findById s planId of
                       None \<Rightarrow> (Inl (ApiError ''Invalid planId'' 400), s)
                     | Some pl \<Rightarrow>
                         if plan_amount pl \<le> 0
                         then (Inl (ApiError ''Server misconfiguration: plan amount invalid'' 500), s)
                         else
                           (case check_target u now act pl (co_subscriptionId req) s of
                              Inl e \<Rightarrow> (Inl e, s)
                            | Inr target \<Rightarrow>
                                (let (p, s1) =
                                       Payment_create now rnd u (plan_id pl) (plan_amount pl) act
                                         (map_option sub_id target) s
                                 in case gw of
                                      Inl msg \<Rightarrow>
                                        (Inl (ApiError ''Failed to create Razorpay order'' 502),
                                         if length (''Razorpay order creation failed: '' @ msg) \<le> 500
                                         then save_payment
                                                (markFailed (''Razorpay order creation failed: '' @ msg) p) s1
                                         else s1)
                                    | Inr order \<Rightarrow>
                                        (Inr (OrderCreated (order_id order) (order_amount order)
                                                (order_currency order) (pay_id p)),
                                         save_payment (p\<lparr>razorpayOrderId := Some (order_id order)\<rparr>)
                                           s1)))))))"

section \<open>activate and cancelSubscription (controllers/subscriptionController.js)\<close>

record activate_request =
  ar_paymentId :: "oid option"
  ar_planId :: "oid option"

datatype activate_ok = Existing "populated option" | Created subscription

definition activate :: "oid \<Rightarrow> time \<Rightarrow> activate_request \<Rightarrow> state \<Rightarrow> activate_ok response" where
  "activate uid now req s =
     (case (ar_paymentId req, ar_planId req) of
        (Some pid, Some planId) \<Rightarrow>
          (case Payment_findById s pid of
             None \<Rightarrow> (Inl (ApiError ''Payment record not found'' 404), s)
           | Some p \<Rightarrow>
               if pay_status p \<noteq> PCompleted
               then (Inl (ApiError ''Payment is not completed'' 400), s)
               else
                 (case Plan_findById s planId of
                    None \<Rightarrow> (Inl (ApiError ''Plan not found'' 404), s)
                  | Some pl \<Rightarrow>
                      if pay_user p \<noteq> uid
                      then (Inl (ApiError ''Payment does not belong to the authenticated user''
                                   403), s)
                      else
                        (case pay_subscription p of
                           Some i \<Rightarrow> (Inr (Existing (populate s (Subscription_findById s i))), s)
                         | None \<Rightarrow>
                             (let (subscription, s1) =
                                    Subscription_create now (pay_user p) (plan_id pl) (pay_id p) now
                                      None [] s;
                                  s2 = save_payment
                                         (p\<lparr>pay_subscription := Some (sub_id subscription)\<rparr>) s1
                              in (Inr (Created subscription), s2)))))
      | _ \<Rightarrow> (Inl (ApiError ''paymentId and planId are required'' 400), s))"

text \<open>
  The pre-validate hook stamps \<open>cancelledAt\<close> when the status was modified to cancelled
  and no stamp is there yet.
\<close>

definition cancelSubscription ::
  "oid \<Rightarrow> bool \<Rightarrow> time \<Rightarrow> oid \<Rightarrow> state \<Rightarrow> string response" where
  "cancelSubscription uid is_admin now i s =
     (case Subscription_findById s i of
        None \<Rightarrow> (Inl (ApiError ''Subscription not found'' 404), s)
      | Some sub \<Rightarrow>
          if sub_user sub \<noteq> uid \<and> \<not> is_admin
          then (Inl (ApiError ''Not authorized to cancel this subscription'' 403), s)
          else if sub_status sub = SCancelled
          then (Inr ''Subscription already cancelled'', s)
          else
            (Inr ''Subscription cancelled'',
             save_subscription
               (sub\<lparr>sub_status := SCancelled,
                    cancelledAt := (case cancelledAt sub of None \<Rightarrow> Some now | Some c \<Rightarrow> Some c)\<rparr>)
               s))"

section \<open>razorpayWebhook (controllers/webhookController.js)\<close>

text \<open>
  What the handler leaves in the store for the payment found for the entity's order id,
  up to and including the pre-save hook. The entry under \<open>gatewayResponse.webhook\<close> is
  added to the Mixed value in place: a value that is new to the document is written with
  the entry, a value that was loaded is not marked modified and stays as stored.
\<close>

definition webhook_update ::
  "time \<Rightarrow> string \<Rightarrow> webhook_payload \<Rightarrow> payment_entity \<Rightarrow> payment \<Rightarrow> payment" where
  "webhook_update now rnd payload e p =
     (let p1 = p\<lparr>webhookReceived := True, webhookData := Some payload,
                  gatewayResponse :=
                    (case gatewayResponse p of
                       None \<Rightarrow> Some \<lparr>gr_body = None, gr_webhook = [(pe_status e, e)]\<rparr>
                     | Some g \<Rightarrow> Some g)\<rparr>;
          p2 = (if pe_status e = ''captured'' \<or> pe_status e = ''authorized''
                then (if pay_status p1 \<noteq> PCompleted
                      then p1\<lparr>razorpayPaymentId := Some (pe_id e), pay_status := PCompleted,
                              completedAt := Some now\<rparr>
                      else p1)
                else if pe_status e = ''failed''
                then p1\<lparr>pay_status := PFailed, failureReason := Some ''Webhook: payment failed''\<rparr>
                else p1)
      in pre_save now rnd (pay_status p) p2)"

text \<open>
  The signature outcome and the parsed body (\<open>None\<close> when it is not JSON) come from
  outside; the entity of a payment event carries its order id. The response is the HTTP
  status with its body. The branch for a completed payment without a subscription does
  nothing in the source, and nothing here.
\<close>

definition razorpayWebhook ::
  "sig_outcome \<Rightarrow> webhook_payload option \<Rightarrow> time \<Rightarrow> string \<Rightarrow> state \<Rightarrow> (nat \<times> string) \<times> state" where
  "razorpayWebhook sg body now rnd s =
     (case sg of
        SigBad \<Rightarrow> ((400, ''invalid signature''), s)
      | SigThrows \<Rightarrow> ((400, ''signature verification error''), s)
      | SigOk \<Rightarrow>
          (case body of
             None \<Rightarrow> ((400, ''invalid payload''), s)
           | Some payload \<Rightarrow>
               if wp_event payload = ''payment.captured'' \<or> wp_event payload = ''payment.authorized''
                  \<or> wp_event payload = ''payment.failed''
               then
                 (case wp_entity payload of
                    None \<Rightarrow> ((200, ''ok''), s)
                  | Some e \<Rightarrow>
                      (case find (\<lambda>p. razorpayOrderId p = Some (pe_order_id e)) (payments s) of
                         None \<Rightarrow> ((200, ''ok''), s)
                       | Some p \<Rightarrow> ((200, ''ok''), save_payment (webhook_update now rnd payload e p) s)))
               else ((200, ''ok''), s)))"


section \<open>Erasing the downgrade flag\<close>

text \<open>
  Two stores are identical except for the \<open>allowDowngrade\<close> values of their plans exactly
  when \<open>unflag\<close> maps them to the same store. The responses that carry a populated plan
  are compared in the same way.
\<close>

definition unflag_plan :: "plan \<Rightarrow> plan" where
  "unflag_plan p = p\<lparr>allowDowngrade := False\<rparr>"

definition unflag :: "state \<Rightarrow> state" where
  "unflag s = s\<lparr>plans := map unflag_plan (plans s)\<rparr>"

definition unflag_populated :: "populated option \<Rightarrow> populated option" where
  "unflag_populated r = map_option (\<lambda>(x, pl). (x, map_option unflag_plan pl)) r"

fun unflag_verify :: "verify_ok \<Rightarrow> verify_ok" where
  "unflag_verify (AlreadyProcessed p r) = AlreadyProcessed p (unflag_populated r)"
| "unflag_verify (SubscriptionRenewed x) = SubscriptionRenewed x"
| "unflag_verify (PlanUpgraded x) = PlanUpgraded x"
| "unflag_verify (SubscriptionActivated x) = SubscriptionActivated x"

fun unflag_activate :: "activate_ok \<Rightarrow> activate_ok" where
  "unflag_activate (Existing r) = Existing (unflag_populated r)"
| "unflag_activate (Created x) = Created x"

definition unflag_response :: "('a \<Rightarrow> 'a) \<Rightarrow> 'a response \<Rightarrow> 'a response" where
  "unflag_response f r = (map_sum id f (fst r), unflag (snd r))"

section \<open>A shop and its requests\<close>

text \<open>The seeded catalogue of models/Plan.js, an empty ledger, and user 7.\<close>

definition shop0 :: state where
  "shop0 =
     \<lparr>plans =
        [\<lparr>plan_id = 1, plan_name = ''Basic'', plan_amount = 19900, duration = 30, priority = 1,
          renewLimit = 1, allowDowngrade = False\<rparr>,
         \<lparr>plan_id = 2, plan_name = ''Standard'', plan_amount = 49900, duration = 90, priority = 2,
          renewLimit = 2, allowDowngrade = False\<rparr>,
         \<lparr>plan_id = 3, plan_name = ''Premium'', plan_amount = 99900, duration = 365, priority = 3,
          renewLimit = 0, allowDowngrade = True\<rparr>],
      payments = [], subscriptions = [], next_oid = 10\<rparr>"

definition order_req :: "string \<Rightarrow> oid \<Rightarrow> oid option \<Rightarrow> create_order_request" where
  "order_req a pl sub = \<lparr>co_planId = Some pl, co_action = Some a, co_subscriptionId = sub\<rparr>"

definition gateway_ok :: "string \<Rightarrow> int \<Rightarrow> string + gateway_order" where
  "gateway_ok i amt = Inr \<lparr>order_id = i, order_amount = amt, order_currency = ''INR''\<rparr>"

definition verify_req :: "string \<Rightarrow> oid \<Rightarrow> verify_request" where
  "verify_req ord pid =
     \<lparr>razorpay_order_id = ord, razorpay_payment_id = ''pay_'' @ ord,
      razorpay_signature = ''sig'', vr_paymentId = Some pid\<rparr>"

definition sig_ok :: verifier where
  "sig_ok ord pay sg = SigOk"

definition captured :: "string \<Rightarrow> webhook_payload" where
  "captured ord =
     \<lparr>wp_event = ''payment.captured'',
      wp_entity = Some \<lparr>pe_order_id = ord, pe_id = ''pay_w'', pe_status = ''captured''\<rparr>\<rparr>"

definition t0 :: time where
  "t0 = 1700000000000"

text \<open>
  Renewals under a cap of 2: user 7 buys Standard (payment 10, subscription 11), then
  pays for two renewals of it (payments 12 and 13) within the same month.
\<close>

definition cap1 :: state where
  "cap1 = snd (createOrder (Some 7) t0 ''A'' (gateway_ok ''o1'' 49900)
                 (order_req ''purchase'' 2 None) shop0)"

definition cap2 :: state where
  "cap2 = snd (verifyPayment sig_ok (t0 + 1000) ''B'' (verify_req ''o1'' 10) cap1)"

definition cap3 :: state where
  "cap3 = snd (createOrder (Some 7) (t0 + 2000) ''C'' (gateway_ok ''o2'' 49900)
                 (order_req ''renew'' 2 (Some 11)) cap2)"

definition cap4 :: state where
  "cap4 = snd (verifyPayment sig_ok (t0 + 3000) ''D'' (verify_req ''o2'' 12) cap3)"

definition cap5 :: state where
  "cap5 = snd (createOrder (Some 7) (t0 + 4000) ''E'' (gateway_ok ''o3'' 49900)
                 (order_req ''renew'' 2 (Some 11)) cap4)"

text \<open>
  Two orders for Basic placed before either is paid (payments 10 and 11), both reported
  captured by the gateway's webhook, then activated one after the other.
\<close>

definition hook1 :: state where
  "hook1 = snd (createOrder (Some 7) t0 ''A'' (gateway_ok ''o1'' 19900)
                  (order_req ''purchase'' 1 None) shop0)"

definition hook2 :: state where
  "hook2 = snd (createOrder (Some 7) (t0 + 1000) ''B'' (gateway_ok ''o2'' 19900)
                  (order_req ''purchase'' 1 None) hook1)"

definition hook3 :: state where
  "hook3 = snd (razorpayWebhook SigOk (Some (captured ''o1'')) (t0 + 2000) ''C'' hook2)"

definition hook4 :: state where
  "hook4 = snd (razorpayWebhook SigOk (Some (captured ''o2'')) (t0 + 3000) ''D'' hook3)"

definition hook5 :: state where
  "hook5 = snd (activate 7 (t0 + 4000) \<lparr>ar_paymentId = Some 10, ar_planId = Some 1\<rparr> hook4)"

text \<open>Payment 10 as the webhook left it in \<open>hook3\<close>: completed, not linked.\<close>

definition paid_by_hook :: payment where
  "paid_by_hook =
     \<lparr>pay_id = 10, pay_user = 7, pay_plan = 1, pay_subscription = None,
      pay_action = Purchase, targetSubscription = None, pay_amount = 19900,
      razorpayOrderId = Some ''o1'', razorpayPaymentId = Some ''pay_w'',
      razorpaySignature = None, pay_status = PCompleted, receipt = Some ''RCPT_A'',
      invoiceNumber = Some ''INV-C'', invoiceGeneratedAt = Some (t0 + 2000),
      gatewayResponse =
        Some \<lparr>gr_body = None,
              gr_webhook = [(''captured'',
                \<lparr>pe_order_id = ''o1'', pe_id = ''pay_w'', pe_status = ''captured''\<rparr>)]\<rparr>,
      webhookReceived = True, webhookData = Some (captured ''o1''),
      completedAt = Some (t0 + 2000), failureReason = None, pay_createdAt = t0\<rparr>"


text \<open>Three subscriptions for the sweep: lapsed and active, current and active, lapsed and cancelled.\<close>

definition sweep0 :: state where
  "sweep0 =
     shop0\<lparr>subscriptions :=
       [\<lparr>sub_id = 20, sub_user = 7, sub_plan = 1, sub_status = SActive, startDate = t0 - 40 * ms_per_day,
         endDate = t0 - 10 * ms_per_day, paymentId = Some 15, cancelledAt = None,
         cancellationReason = None, billingHistory = []\<rparr>,
        \<lparr>sub_id = 21, sub_user = 8, sub_plan = 2, sub_status = SActive, startDate = t0 - 40 * ms_per_day,
         endDate = t0 + 50 * ms_per_day, paymentId = Some 16, cancelledAt = None,
         cancellationReason = None, billingHistory = []\<rparr>,
        \<lparr>sub_id = 22, sub_user = 9, sub_plan = 1, sub_status = SCancelled, startDate = t0 - 40 * ms_per_day,
         endDate = t0 - 10 * ms_per_day, paymentId = Some 17, cancelledAt = Some (t0 - 20 * ms_per_day),
         cancellationReason = None, billingHistory = []\<rparr>],
       next_oid := 30\<rparr>"


text \<open>
  A plan of 30 days with a cap of 2; subscription 20 ends in five days, subscription 21
  lapsed ten days ago; a pending renew-payment for each.
\<close>

definition renew0 :: state where
  "renew0 =
     \<lparr>plans = [\<lparr>plan_id = 1, plan_name = ''Basic'', plan_amount = 19900, duration = 30,
                priority = 1, renewLimit = 2, allowDowngrade = False\<rparr>],
      payments =
        [\<lparr>pay_id = 30, pay_user = 7, pay_plan = 1, pay_subscription = None,
          pay_action = Renew, targetSubscription = Some 20, pay_amount = 19900,
          razorpayOrderId = Some ''o30'', razorpayPaymentId = None, razorpaySignature = None,
          pay_status = PPending, receipt = Some ''RCPT_30'', invoiceNumber = None,
          invoiceGeneratedAt = None, gatewayResponse = None, webhookReceived = False,
          webhookData = None, completedAt = None, failureReason = None,
          pay_createdAt = t0 - 1000\<rparr>,
         \<lparr>pay_id = 31, pay_user = 8, pay_plan = 1, pay_subscription = None,
          pay_action = Renew, targetSubscription = Some 21, pay_amount = 19900,
          razorpayOrderId = Some ''o31'', razorpayPaymentId = None, razorpaySignature = None,
          pay_status = PPending, receipt = Some ''RCPT_31'', invoiceNumber = None,
          invoiceGeneratedAt = None, gatewayResponse = None, webhookReceived = False,
          webhookData = None, completedAt = None, failureReason = None,
          pay_createdAt = t0 - 1000\<rparr>],
      subscriptions =
        [\<lparr>sub_id = 20, sub_user = 7, sub_plan = 1, sub_status = SActive,
          startDate = t0 - 25 * ms_per_day, endDate = t0 + 5 * ms_per_day, paymentId = Some 18,
          cancelledAt = None, cancellationReason = None, billingHistory = []\<rparr>,
         \<lparr>sub_id = 21, sub_user = 8, sub_plan = 1, sub_status = SExpired,
          startDate = t0 - 40 * ms_per_day, endDate = t0 - 10 * ms_per_day, paymentId = Some 19,
          cancelledAt = None, cancellationReason = None, billingHistory = []\<rparr>],
      next_oid = 40\<rparr>"

text \<open>
  The checks of \<open>verifyPayment\<close> between loading the payment and reconciling it: the
  fields are present, the order id is the payment's, the signature verifies.
\<close>

definition passes_checks :: "verifier \<Rightarrow> verify_request \<Rightarrow> payment \<Rightarrow> bool" where
  "passes_checks vsig req p =
     (razorpay_order_id req \<noteq> [] \<and> razorpay_payment_id req \<noteq> [] \<and> razorpay_signature req \<noteq> []
      \<and> \<not> (truthy (razorpayOrderId p) \<and> razorpayOrderId p \<noteq> Some (razorpay_order_id req))
      \<and> vsig (razorpay_order_id req) (razorpay_payment_id req) (razorpay_signature req) = SigOk)"

text \<open>
  User 7 holds subscription 20 on Basic and has paid to upgrade it to Standard (payment
  30); user 8 holds subscription 21 on Standard and has paid to move it to Basic
  (payment 31).
\<close>

definition up0 :: state where
  "up0 =
     shop0\<lparr>payments :=
        [\<lparr>pay_id = 30, pay_user = 7, pay_plan = 2, pay_subscription = None,
          pay_action = Upgrade, targetSubscription = Some 20, pay_amount = 49900,
          razorpayOrderId = Some ''o30'', razorpayPaymentId = None, razorpaySignature = None,
          pay_status = PPending, receipt = Some ''RCPT_30'', invoiceNumber = None,
          invoiceGeneratedAt = None, gatewayResponse = None, webhookReceived = False,
          webhookData = None, completedAt = None, failureReason = None,
          pay_createdAt = t0 - 1000\<rparr>,
         \<lparr>pay_id = 31, pay_user = 8, pay_plan = 1, pay_subscription = None,
          pay_action = Upgrade, targetSubscription = Some 21, pay_amount = 19900,
          razorpayOrderId = Some ''o31'', razorpayPaymentId = None, razorpaySignature = None,
          pay_status = PPending, receipt = Some ''RCPT_31'', invoiceNumber = None,
          invoiceGeneratedAt = None, gatewayResponse = None, webhookReceived = False,
          webhookData = None, completedAt = None, failureReason = None,
          pay_createdAt = t0 - 1000\<rparr>],
      subscriptions :=
        [\<lparr>sub_id = 20, sub_user = 7, sub_plan = 1, sub_status = SActive,
          startDate = t0 - 10 * ms_per_day, endDate = t0 + 20 * ms_per_day, paymentId = Some 18,
          cancelledAt = None, cancellationReason = None, billingHistory = []\<rparr>,
         \<lparr>sub_id = 21, sub_user = 8, sub_plan = 2, sub_status = SActive,
          startDate = t0 - 10 * ms_per_day, endDate = t0 + 80 * ms_per_day, paymentId = Some 19,
          cancelledAt = None, cancellationReason = None, billingHistory = []\<rparr>],
      next_oid := 40\<rparr>"

text \<open>Payment 10 as the first verification left it in \<open>cap2\<close>: completed and linked.\<close>

definition paid_and_linked :: payment where
  "paid_and_linked =
     \<lparr>pay_id = 10, pay_user = 7, pay_plan = 2, pay_subscription = Some 11,
      pay_action = Purchase, targetSubscription = None, pay_amount = 49900,
      razorpayOrderId = Some ''o1'', razorpayPaymentId = Some ''pay_o1'',
      razorpaySignature = Some ''sig'', pay_status = PCompleted, receipt = Some ''RCPT_A'',
      invoiceNumber = Some ''INV-B'', invoiceGeneratedAt = Some (t0 + 1000),
      gatewayResponse = Some \<lparr>gr_body = Some (verify_req ''o1'' 10), gr_webhook = []\<rparr>,
      webhookReceived = False, webhookData = None, completedAt = Some (t0 + 1000),
      failureReason = None, pay_createdAt = t0\<rparr>"

text \<open>The store \<open>up0\<close> with the downgrade flag of every plan set.\<close>

definition up0_flagged :: state where
  "up0_flagged = up0\<lparr>plans := map (\<lambda>p. p\<lparr>allowDowngrade := True\<rparr>) (plans up0)\<rparr>"

text \<open>The subscription a successful verification answers with.\<close>

fun answered :: "verify_ok \<Rightarrow> subscription option" where
  "answered (AlreadyProcessed p r) = map_option fst r"
| "answered (SubscriptionRenewed x) = Some x"
| "answered (PlanUpgraded x) = Some x"
| "answered (SubscriptionActivated x) = Some x"

text \<open>
  The documents two handlers hold after \<open>Payment.findById\<close> when both load before either
  saves: payment 30 of \<open>renew0\<close> and payment 10 of \<open>hook2\<close>, both pending.
\<close>

definition pending_renewal :: payment where
  "pending_renewal =
     \<lparr>pay_id = 30, pay_user = 7, pay_plan = 1, pay_subscription = None,
      pay_action = Renew, targetSubscription = Some 20, pay_amount = 19900,
      razorpayOrderId = Some ''o30'', razorpayPaymentId = None, razorpaySignature = None,
      pay_status = PPending, receipt = Some ''RCPT_30'', invoiceNumber = None,
      invoiceGeneratedAt = None, gatewayResponse = None, webhookReceived = False,
      webhookData = None, completedAt = None, failureReason = None,
      pay_createdAt = t0 - 1000\<rparr>"

definition pending_purchase :: payment where
  "pending_purchase =
     \<lparr>pay_id = 10, pay_user = 7, pay_plan = 1, pay_subscription = None,
      pay_action = Purchase, targetSubscription = None, pay_amount = 19900,
      razorpayOrderId = Some ''o1'', razorpayPaymentId = None, razorpaySignature = None,
      pay_status = PPending, receipt = Some ''RCPT_A'', invoiceNumber = None,
      invoiceGeneratedAt = None, gatewayResponse = None, webhookReceived = False,
      webhookData = None, completedAt = None, failureReason = None, pay_createdAt = t0\<rparr>"

text \<open>The store after the first of two racing verifications of payment 30 has finished.\<close>

definition race1 :: state where
  "race1 = snd (reconcile t0 ''R'' (verify_req ''o30'' 30) pending_renewal renew0)"

section \<open>Lookups after a save\<close>

lemma find_key: "find (\<lambda>y. f y = i) xs = Some x \<Longrightarrow> f x = i"
  by (induction xs) (auto split: if_splits)

lemma find_replace:
  "find (\<lambda>y. f y = i) (map (\<lambda>y. if f y = f z then z else y) xs)
     = (if f z = i then map_option (\<lambda>_. z) (find (\<lambda>y. f y = i) xs) else find (\<lambda>y. f y = i) xs)"
  by (induction xs) auto

lemma Payment_findById_save:
  "Payment_findById (save_payment q s) i
     = (if pay_id q = i then map_option (\<lambda>_. q) (Payment_findById s i) else Payment_findById s i)"
  unfolding Payment_findById_def save_payment_def
  using find_replace [of pay_id i q "payments s"] by simp

lemma Subscription_findById_save:
  "Subscription_findById (save_subscription x s) i
     = (if sub_id x = i then map_option (\<lambda>_. x) (Subscription_findById s i)
        else Subscription_findById s i)"
  unfolding Subscription_findById_def save_subscription_def
  using find_replace [of sub_id i x "subscriptions s"] by simp

lemma Payment_findById_key: "Payment_findById s i = Some p \<Longrightarrow> pay_id p = i"
  unfolding Payment_findById_def by (rule find_key)

lemma Subscription_findById_key: "Subscription_findById s i = Some x \<Longrightarrow> sub_id x = i"
  unfolding Subscription_findById_def by (rule find_key)

lemma Payment_findById_self:
  "Payment_findById s i = Some p \<Longrightarrow> Payment_findById s (pay_id p) = Some p"
  by (frule Payment_findById_key) simp

lemma Subscription_findById_self:
  "Subscription_findById s i = Some x \<Longrightarrow> Subscription_findById s (sub_id x) = Some x"
  by (frule Subscription_findById_key) simp

lemma Payment_findById_create:
  "Payment_findById (snd (Subscription_create nw u pl pid st e h s)) i = Payment_findById s i"
  by (simp add: Subscription_create_def Payment_findById_def Let_def)

lemma activate_status:
  "map_option pay_status (Payment_findById (snd (activate uid now areq s)) i)
     = map_option pay_status (Payment_findById s i)"
  by (auto simp add: activate_def Payment_findById_save Payment_findById_create split_beta Let_def
        Payment_findById_self split: option.splits)

section \<open>The renewal cap\<close>

text \<open>
  C1. With a cap of 2 the claim has the first two renewals of a month succeed. On the
  shop above, the first renewal of subscription 11 (payment 12) succeeds and the second
  one in the same month (payment 13) is refused: before the second verification one
  completed renew-payment is on record, but the count is taken after the payment under
  verification was itself saved as completed, so it reads 2. The refusal appends no
  billing-history entry, which leaves one entry appended by renewals.
\<close>

theorem renewal_cap_second_refused:
  "fst (verifyPayment sig_ok (t0 + 3000) ''D'' (verify_req ''o2'' 12) cap3)
     = Inr (SubscriptionRenewed
             \<lparr>sub_id = 11, sub_user = 7, sub_plan = 2, sub_status = SActive,
              startDate = t0 + 1000, endDate = t0 + 1000 + 180 * ms_per_day,
              paymentId = Some 10, cancelledAt = None, cancellationReason = None,
              billingHistory =
                [\<lparr>be_date = t0 + 1000, be_amount = 49900, be_paymentId = 10, be_status = BSuccess\<rparr>,
                 \<lparr>be_date = t0 + 3000, be_amount = 49900, be_paymentId = 12, be_status = BSuccess\<rparr>]\<rparr>)
   \<and> map_option renewLimit (Plan_findById cap5 2) = Some 2
   \<and> startOfMonth (t0 + 5000) \<le> t0 \<and> t0 + 5000 < startOfNextMonth (t0 + 5000)
   \<and> renewCount cap5 11 (t0 + 5000) = 1
   \<and> fst (verifyPayment sig_ok (t0 + 5000) ''F'' (verify_req ''o3'' 13) cap5)
       = Inl (ApiError ''You have reached the maximum renewals for this period'' 400)
   \<and> map (\<lambda>x. length (billingHistory x))
         (subscriptions (snd (verifyPayment sig_ok (t0 + 5000) ''F'' (verify_req ''o3'' 13) cap5)))
       = map (\<lambda>x. length (billingHistory x)) (subscriptions cap4)"
  by code_simp

section \<open>Completion and failure of a payment\<close>

text \<open>
  C2. The claim has \<open>complete\<close> return a completed payment unchanged. \<open>markCompleted\<close> has
  no guard on the status: on payment 10, completed by the webhook at \<open>t0 + 2000\<close>, it
  rewrites the gateway payment id, the signature, the gateway response and
  \<open>completedAt\<close>; and the verify call that follows the webhook stores exactly that.
\<close>

theorem markCompleted_rewrites_completed:
  "Payment_findById hook3 10 = Some paid_by_hook
   \<and> pay_status paid_by_hook = PCompleted
   \<and> completedAt paid_by_hook = Some (t0 + 2000)
   \<and> markCompleted (t0 + 9000) ''Z'' (Some ''pay_o1'') (Some ''sig'')
        (Some \<lparr>gr_body = Some (verify_req ''o1'' 10), gr_webhook = []\<rparr>) paid_by_hook
      = paid_by_hook\<lparr>razorpayPaymentId := Some ''pay_o1'', razorpaySignature := Some ''sig'',
          gatewayResponse := Some \<lparr>gr_body = Some (verify_req ''o1'' 10), gr_webhook = []\<rparr>,
          completedAt := Some (t0 + 9000)\<rparr>
   \<and> Payment_findById (snd (verifyPayment sig_ok (t0 + 9000) ''Z'' (verify_req ''o1'' 10) hook3)) 10
      = Some (paid_by_hook\<lparr>pay_subscription := Some 12,
          razorpayPaymentId := Some ''pay_o1'', razorpaySignature := Some ''sig'',
          gatewayResponse := Some \<lparr>gr_body = Some (verify_req ''o1'' 10), gr_webhook = []\<rparr>,
          completedAt := Some (t0 + 9000)\<rparr>)"
  by code_simp

text \<open>
  C4, as stated: \<open>fail\<close> is a no-op on a completed payment. It is not: \<open>markFailed\<close> turns
  the completed payment 10 into a failed one.
\<close>

theorem markFailed_on_completed:
  "pay_status paid_by_hook = PCompleted
   \<and> markFailed ''late failure'' paid_by_hook
      = paid_by_hook\<lparr>pay_status := PFailed, failureReason := Some ''late failure''\<rparr>
   \<and> pay_status (markFailed ''late failure'' paid_by_hook) \<noteq> pay_status paid_by_hook"
  by code_simp

text \<open>
  C4, amended. \<open>markCompleted\<close> always leaves the status completed; a webhook event whose
  entity status is captured or authorized leaves the status, \<open>completedAt\<close> and the
  gateway payment id of a completed payment as they are; \<open>activate\<close> changes the status of
  no payment; and \<open>markFailed\<close> sets the status to failed and records the reason on every
  payment, a completed one included.
\<close>

theorem completed_status_kept:
  "pay_status (markCompleted now rnd rpid rsig gr p) = PCompleted
   \<and> pay_status (markFailed reason p) = PFailed
   \<and> failureReason (markFailed reason p) = Some (if reason = [] then ''Payment failed'' else reason)
   \<and> (pay_status p = PCompleted \<and> (pe_status e = ''captured'' \<or> pe_status e = ''authorized'')
        \<longrightarrow> pay_status (webhook_update now rnd payload e p) = PCompleted
            \<and> completedAt (webhook_update now rnd payload e p) = completedAt p
            \<and> razorpayPaymentId (webhook_update now rnd payload e p) = razorpayPaymentId p)
   \<and> map_option pay_status (Payment_findById (snd (activate uid now areq s)) i)
       = map_option pay_status (Payment_findById s i)"
proof -
  have a: "pay_status (markCompleted now rnd rpid rsig gr p) = PCompleted"
    by (simp add: markCompleted_def pre_save_def)
  have b: "pay_status (markFailed reason p) = PFailed
           \<and> failureReason (markFailed reason p)
               = Some (if reason = [] then ''Payment failed'' else reason)"
    by (simp add: markFailed_def)
  have c: "pay_status p = PCompleted \<and> (pe_status e = ''captured'' \<or> pe_status e = ''authorized'')
        \<longrightarrow> pay_status (webhook_update now rnd payload e p) = PCompleted
            \<and> completedAt (webhook_update now rnd payload e p) = completedAt p
            \<and> razorpayPaymentId (webhook_update now rnd payload e p) = razorpayPaymentId p"
    by (auto simp add: webhook_update_def pre_save_def Let_def)
  have d: "map_option pay_status (Payment_findById (snd (activate uid now areq s)) i)
             = map_option pay_status (Payment_findById s i)"
    by (rule activate_status)
  from a b c d show ?thesis by blast
qed

theorem completed_status_kept_witness:
  "pay_status paid_by_hook = PCompleted
   \<and> pe_status \<lparr>pe_order_id = ''o1'', pe_id = ''pay_x'', pe_status = ''authorized''\<rparr> = ''authorized''
   \<and> pay_status (webhook_update (t0 + 9000) ''Z'' (captured ''o1'')
        \<lparr>pe_order_id = ''o1'', pe_id = ''pay_x'', pe_status = ''authorized''\<rparr> paid_by_hook) = PCompleted
   \<and> razorpayPaymentId (webhook_update (t0 + 9000) ''Z'' (captured ''o1'')
        \<lparr>pe_order_id = ''o1'', pe_id = ''pay_x'', pe_status = ''authorized''\<rparr> paid_by_hook)
       = Some ''pay_w''"
proof -
  have h: "pay_status paid_by_hook = PCompleted" by (simp add: paid_by_hook_def)
  have r: "razorpayPaymentId paid_by_hook = Some ''pay_w''" by (simp add: paid_by_hook_def)
  show ?thesis
    using h r
      completed_status_kept [of "t0 + 9000" "''Z''" None None None paid_by_hook "''x''"
        "\<lparr>pe_order_id = ''o1'', pe_id = ''pay_x'', pe_status = ''authorized''\<rparr>" "captured ''o1''"
        7 "\<lparr>ar_paymentId = None, ar_planId = None\<rparr>" shop0 0]
    by simp
qed

section \<open>The expiry sweep\<close>

text \<open>
  C8. The sweep touches only the subscriptions: position by position, a subscription that
  is active with an end date before \<open>now\<close> becomes the same document with status
  expired, and every other subscription is left as it is.
\<close>

theorem expire_sweep_frame:
  "plans (expireOldSubscriptions now s) = plans s
   \<and> payments (expireOldSubscriptions now s) = payments s
   \<and> next_oid (expireOldSubscriptions now s) = next_oid s
   \<and> length (subscriptions (expireOldSubscriptions now s)) = length (subscriptions s)
   \<and> (\<forall>i < length (subscriptions s).
        subscriptions (expireOldSubscriptions now s) ! i
          = (if sub_status (subscriptions s ! i) = SActive \<and> endDate (subscriptions s ! i) < now
             then (subscriptions s ! i)\<lparr>sub_status := SExpired\<rparr>
             else subscriptions s ! i))"
  by (simp add: expireOldSubscriptions_def)

theorem expire_sweep_frame_witness:
  "(0::nat) < length (subscriptions sweep0)
   \<and> map sub_status (subscriptions (expireOldSubscriptions t0 sweep0)) = [SExpired, SActive, SCancelled]
   \<and> subscriptions (expireOldSubscriptions t0 sweep0) ! 0
       = (subscriptions sweep0 ! 0)\<lparr>sub_status := SExpired\<rparr>
   \<and> subscriptions (expireOldSubscriptions t0 sweep0) ! 1 = subscriptions sweep0 ! 1
   \<and> subscriptions (expireOldSubscriptions t0 sweep0) ! 2 = subscriptions sweep0 ! 2"
proof -
  have l: "length (subscriptions sweep0) = 3" by (simp add: sweep0_def)
  have s0: "sub_status (subscriptions sweep0 ! 0) = SActive \<and> endDate (subscriptions sweep0 ! 0) < t0"
    by (simp add: sweep0_def ms_per_day_def)
  have s1: "\<not> endDate (subscriptions sweep0 ! 1) < t0"
    by (simp add: sweep0_def ms_per_day_def)
  have s2: "sub_status (subscriptions sweep0 ! 2) \<noteq> SActive"
    by (simp add: sweep0_def)
  have m: "map sub_status (subscriptions (expireOldSubscriptions t0 sweep0))
             = [SExpired, SActive, SCancelled]"
    by (simp add: expireOldSubscriptions_def sweep0_def ms_per_day_def)
  from expire_sweep_frame [of t0 sweep0] l s0 s1 s2 m show ?thesis by simp
qed

section \<open>One active subscription per user and plan\<close>

text \<open>
  C7. The claim has every operation keep at most one active subscription per user and
  plan. After payment 10 was activated (subscription 12, active on Basic), \<open>activate\<close> on
  payment 11 creates subscription 13, also active on Basic for user 7 and also running;
  the verify path on the same payment refuses with the conflict.
\<close>

theorem duplicate_active_after_activate:
  "fst (activate 7 (t0 + 5000) \<lparr>ar_paymentId = Some 11, ar_planId = Some 1\<rparr> hook5)
     = Inr (Created
             \<lparr>sub_id = 13, sub_user = 7, sub_plan = 1, sub_status = SActive,
              startDate = t0 + 5000, endDate = t0 + 5000 + 30 * ms_per_day,
              paymentId = Some 11, cancelledAt = None, cancellationReason = None,
              billingHistory = []\<rparr>)
   \<and> map (\<lambda>x. (sub_id x, sub_user x, sub_plan x, sub_status x, t0 + 5000 < endDate x))
        (subscriptions (snd (activate 7 (t0 + 5000) \<lparr>ar_paymentId = Some 11, ar_planId = Some 1\<rparr> hook5)))
     = [(12, 7, 1, SActive, True), (13, 7, 1, SActive, True)]
   \<and> fst (verifyPayment sig_ok (t0 + 5000) ''E'' (verify_req ''o2'' 11) hook5)
     = Inl (ApiError ''You already have an active subscription for this plan'' 400)"
  by code_simp

section \<open>Frames of the saves, and what a successful verification went through\<close>

lemma save_payment_frame:
  "plans (save_payment q s) = plans s" "subscriptions (save_payment q s) = subscriptions s"
  "next_oid (save_payment q s) = next_oid s"
  "length (payments (save_payment q s)) = length (payments s)"
  by (simp_all add: save_payment_def)

lemma save_subscription_frame:
  "plans (save_subscription x s) = plans s" "payments (save_subscription x s) = payments s"
  "next_oid (save_subscription x s) = next_oid s"
  "length (subscriptions (save_subscription x s)) = length (subscriptions s)"
  by (simp_all add: save_subscription_def)

lemma lookups_save_payment:
  "Plan_findById (save_payment q s) = Plan_findById s"
  "Subscription_findById (save_payment q s) = Subscription_findById s"
  "findActive (save_payment q s) = findActive s"
  by (simp_all add: fun_eq_iff Plan_findById_def Subscription_findById_def findActive_def
        save_payment_def)

lemma lookups_save_subscription:
  "Plan_findById (save_subscription x s) = Plan_findById s"
  "Payment_findById (save_subscription x s) = Payment_findById s"
  by (simp_all add: fun_eq_iff Plan_findById_def Payment_findById_def save_subscription_def)

lemma markCompleted_keeps:
  "pay_id (markCompleted now rnd a b g p) = pay_id p"
  "pay_user (markCompleted now rnd a b g p) = pay_user p"
  "pay_plan (markCompleted now rnd a b g p) = pay_plan p"
  "pay_action (markCompleted now rnd a b g p) = pay_action p"
  "pay_amount (markCompleted now rnd a b g p) = pay_amount p"
  "pay_subscription (markCompleted now rnd a b g p) = pay_subscription p"
  "targetSubscription (markCompleted now rnd a b g p) = targetSubscription p"
  "razorpayOrderId (markCompleted now rnd a b g p) = razorpayOrderId p"
  "pay_status (markCompleted now rnd a b g p) = PCompleted"
  by (simp_all add: markCompleted_def pre_save_def)

lemma verifyPayment_Inr:
  assumes "verifyPayment vsig now rnd req s = (Inr r, s')"
  shows "\<exists>pid p. vr_paymentId req = Some pid \<and> Payment_findById s pid = Some p
           \<and> reconcile now rnd req p s = (Inr r, s')"
  using assms
  by (auto simp add: verifyPayment_def reject_def split: if_splits option.splits sig_outcome.splits)

lemma reconcile_Inr:
  assumes "reconcile now rnd req p s = (Inr r, s')"
  shows "(pay_status p = PCompleted \<and> pay_subscription p \<noteq> None \<and> s' = s
            \<and> (\<exists>q. r = AlreadyProcessed p q))
         \<or> (\<not> (pay_status p = PCompleted \<and> pay_subscription p \<noteq> None)
            \<and> (\<exists>pl p1. p1 = markCompleted now rnd (Some (razorpay_payment_id req))
                            (Some (razorpay_signature req))
                            (Some \<lparr>gr_body = Some req, gr_webhook = []\<rparr>) p
                 \<and> Plan_findById s (pay_plan p) = Some pl
                 \<and> (case pay_action p of
                       Renew \<Rightarrow> verify_renew now p1 pl (save_payment p1 s)
                     | Upgrade \<Rightarrow> verify_upgrade now p1 pl (save_payment p1 s)
                     | Purchase \<Rightarrow> verify_purchase now p1 pl (save_payment p1 s)) = (Inr r, s')))"
  using assms
  by (auto simp add: reconcile_def reject_def Let_def lookups_save_payment markCompleted_keeps
        split: if_splits option.splits)

lemma verify_renew_Inr:
  assumes "verify_renew now p pl s = (Inr r, s')"
  shows "\<exists>sub. (targetSubscription p = Some (sub_id sub)
                 \<or> targetSubscription p = None \<and> pay_subscription p = Some (sub_id sub))
           \<and> Subscription_findById s (sub_id sub) = Some sub
           \<and> r = SubscriptionRenewed
                   (sub\<lparr>endDate := max (endDate sub) now + duration pl * ms_per_day,
                        billingHistory := billingHistory sub @ [billing_success now p],
                        sub_status := SActive\<rparr>)
           \<and> s' = save_payment (p\<lparr>pay_subscription := Some (sub_id sub)\<rparr>)
                    (save_subscription
                       (sub\<lparr>endDate := max (endDate sub) now + duration pl * ms_per_day,
                            billingHistory := billingHistory sub @ [billing_success now p],
                            sub_status := SActive\<rparr>) s)"
  using assms
  by (auto simp add: verify_renew_def reject_def Let_def max_def Subscription_findById_self
        split: if_splits option.splits dest: Subscription_findById_key)

lemma verify_upgrade_not_renewed: "verify_upgrade now p pl s \<noteq> (Inr (SubscriptionRenewed x), s')"
  by (auto simp add: verify_upgrade_def reject_def Let_def split_beta split: if_splits option.splits)

lemma verify_purchase_not_renewed: "verify_purchase now p pl s \<noteq> (Inr (SubscriptionRenewed x), s')"
  by (auto simp add: verify_purchase_def reject_def Let_def split_beta split: if_splits option.splits)

section \<open>Renewal\<close>

text \<open>
  C5. A verification that answers with a renewed subscription went through a renew-payment
  \<open>p\<close> whose plan \<open>pl\<close> exists and whose target subscription \<open>sub\<close> exists. The
  answer is \<open>sub\<close> with the end date moved to the later of the old end and \<open>now\<close>, plus
  the duration of \<open>pl\<close> in days, with exactly one billing-history entry of the payment's
  amount appended and with status active; it is what the store then holds for the
  target, and every other subscription is as before.
\<close>

theorem renewal_extends:
  assumes "verifyPayment vsig now rnd req s = (Inr (SubscriptionRenewed sub'), s')"
  shows "\<exists>pid p pl sub.
           vr_paymentId req = Some pid \<and> Payment_findById s pid = Some p \<and> pay_action p = Renew
           \<and> Plan_findById s (pay_plan p) = Some pl
           \<and> (targetSubscription p = Some (sub_id sub)
               \<or> targetSubscription p = None \<and> pay_subscription p = Some (sub_id sub))
           \<and> Subscription_findById s (sub_id sub) = Some sub
           \<and> sub' = sub\<lparr>endDate := max (endDate sub) now + duration pl * ms_per_day,
                         billingHistory := billingHistory sub
                           @ [\<lparr>be_date = now, be_amount = pay_amount p, be_paymentId = pay_id p,
                               be_status = BSuccess\<rparr>],
                         sub_status := SActive\<rparr>
           \<and> Subscription_findById s' (sub_id sub) = Some sub'
           \<and> (\<forall>j. j \<noteq> sub_id sub \<longrightarrow> Subscription_findById s' j = Subscription_findById s j)
           \<and> length (subscriptions s') = length (subscriptions s)"
proof -
  from verifyPayment_Inr [OF assms] obtain pid p where
    pid: "vr_paymentId req = Some pid" and p: "Payment_findById s pid = Some p"
    and rec: "reconcile now rnd req p s = (Inr (SubscriptionRenewed sub'), s')"
    by blast
  define p1 where "p1 = markCompleted now rnd (Some (razorpay_payment_id req))
      (Some (razorpay_signature req)) (Some \<lparr>gr_body = Some req, gr_webhook = []\<rparr>) p"
  define s1 where "s1 = save_payment p1 s"
  from reconcile_Inr [OF rec] obtain pl where
    pl: "Plan_findById s (pay_plan p) = Some pl"
    and br: "(case pay_action p of
                Renew \<Rightarrow> verify_renew now p1 pl s1
              | Upgrade \<Rightarrow> verify_upgrade now p1 pl s1
              | Purchase \<Rightarrow> verify_purchase now p1 pl s1) = (Inr (SubscriptionRenewed sub'), s')"
    unfolding p1_def s1_def by auto
  have act: "pay_action p = Renew"
    using br verify_upgrade_not_renewed verify_purchase_not_renewed
    by (cases "pay_action p") auto
  with br have ren: "verify_renew now p1 pl s1 = (Inr (SubscriptionRenewed sub'), s')"
    by simp
  from verify_renew_Inr [OF ren] obtain sub where
    tgt: "targetSubscription p1 = Some (sub_id sub)
          \<or> targetSubscription p1 = None \<and> pay_subscription p1 = Some (sub_id sub)"
    and fnd: "Subscription_findById s1 (sub_id sub) = Some sub"
    and sub': "sub' = sub\<lparr>endDate := max (endDate sub) now + duration pl * ms_per_day,
                          billingHistory := billingHistory sub @ [billing_success now p1],
                          sub_status := SActive\<rparr>"
    and s': "s' = save_payment (p1\<lparr>pay_subscription := Some (sub_id sub)\<rparr>)
                   (save_subscription sub' s1)"
    by auto
  have tgt': "targetSubscription p = Some (sub_id sub)
              \<or> targetSubscription p = None \<and> pay_subscription p = Some (sub_id sub)"
    using tgt by (simp add: p1_def markCompleted_keeps)
  have fnd': "Subscription_findById s (sub_id sub) = Some sub"
    using fnd by (simp add: s1_def lookups_save_payment)
  have bill: "billing_success now p1
                = \<lparr>be_date = now, be_amount = pay_amount p, be_paymentId = pay_id p,
                   be_status = BSuccess\<rparr>"
    by (simp add: billing_success_def p1_def markCompleted_keeps)
  have id': "sub_id sub' = sub_id sub" by (simp add: sub')
  have look: "Subscription_findById s' j
                = (if j = sub_id sub then Some sub' else Subscription_findById s j)" for j
    using fnd' by (auto simp add: s' s1_def lookups_save_payment Subscription_findById_save id')
  have len: "length (subscriptions s') = length (subscriptions s)"
    by (simp add: s' s1_def save_payment_frame save_subscription_frame)
  show ?thesis
    using pid p act pl tgt' fnd' sub' bill look len by (intro exI [of _ pid] exI [of _ p] exI [of _ pl] exI [of _ sub]) simp
qed

theorem renewal_extends_witness:
  "verifyPayment sig_ok t0 ''R'' (verify_req ''o30'' 30) renew0
     = (Inr (SubscriptionRenewed
              \<lparr>sub_id = 20, sub_user = 7, sub_plan = 1, sub_status = SActive,
               startDate = t0 - 25 * ms_per_day, endDate = t0 + 35 * ms_per_day,
               paymentId = Some 18, cancelledAt = None, cancellationReason = None,
               billingHistory = [\<lparr>be_date = t0, be_amount = 19900, be_paymentId = 30,
                                  be_status = BSuccess\<rparr>]\<rparr>),
        snd (verifyPayment sig_ok t0 ''R'' (verify_req ''o30'' 30) renew0))
   \<and> Subscription_findById (snd (verifyPayment sig_ok t0 ''R'' (verify_req ''o30'' 30) renew0)) 20
       = Some \<lparr>sub_id = 20, sub_user = 7, sub_plan = 1, sub_status = SActive,
               startDate = t0 - 25 * ms_per_day, endDate = t0 + 35 * ms_per_day,
               paymentId = Some 18, cancelledAt = None, cancellationReason = None,
               billingHistory = [\<lparr>be_date = t0, be_amount = 19900, be_paymentId = 30,
                                  be_status = BSuccess\<rparr>]\<rparr>"
proof -
  have h: "verifyPayment sig_ok t0 ''R'' (verify_req ''o30'' 30) renew0
     = (Inr (SubscriptionRenewed
              \<lparr>sub_id = 20, sub_user = 7, sub_plan = 1, sub_status = SActive,
               startDate = t0 - 25 * ms_per_day, endDate = t0 + 35 * ms_per_day,
               paymentId = Some 18, cancelledAt = None, cancellationReason = None,
               billingHistory = [\<lparr>be_date = t0, be_amount = 19900, be_paymentId = 30,
                                  be_status = BSuccess\<rparr>]\<rparr>),
        snd (verifyPayment sig_ok t0 ''R'' (verify_req ''o30'' 30) renew0))"
    by code_simp
  have "\<exists>sub :: subscription. Subscription_findById (snd (verifyPayment sig_ok t0 ''R'' (verify_req ''o30'' 30) renew0)) (sub_id sub)
       = Some \<lparr>sub_id = 20, sub_user = 7, sub_plan = 1, sub_status = SActive,
               startDate = t0 - 25 * ms_per_day, endDate = t0 + 35 * ms_per_day,
               paymentId = Some 18, cancelledAt = None, cancellationReason = None,
               billingHistory = [\<lparr>be_date = t0, be_amount = 19900, be_paymentId = 30,
                                  be_status = BSuccess\<rparr>]\<rparr>"
    using renewal_extends [OF h] by (elim exE conjE) (rule exI)
  then obtain sub :: subscription where k:
    "Subscription_findById (snd (verifyPayment sig_ok t0 ''R'' (verify_req ''o30'' 30) renew0)) (sub_id sub)
       = Some \<lparr>sub_id = 20, sub_user = 7, sub_plan = 1, sub_status = SActive,
               startDate = t0 - 25 * ms_per_day, endDate = t0 + 35 * ms_per_day,
               paymentId = Some 18, cancelledAt = None, cancellationReason = None,
               billingHistory = [\<lparr>be_date = t0, be_amount = 19900, be_paymentId = 30,
                                  be_status = BSuccess\<rparr>]\<rparr>" ..
  from Subscription_findById_key [OF k] have "sub_id sub = 20" by simp
  with k h show ?thesis by simp
qed

text \<open>The lapsed subscription 21 is renewed from \<open>now\<close>, and is active again.\<close>

lemma renewal_of_lapsed:
  "fst (verifyPayment sig_ok t0 ''R'' (verify_req ''o31'' 31) renew0)
     = Inr (SubscriptionRenewed
              \<lparr>sub_id = 21, sub_user = 8, sub_plan = 1, sub_status = SActive,
               startDate = t0 - 40 * ms_per_day, endDate = t0 + 30 * ms_per_day,
               paymentId = Some 19, cancelledAt = None, cancellationReason = None,
               billingHistory = [\<lparr>be_date = t0, be_amount = 19900, be_paymentId = 31,
                                  be_status = BSuccess\<rparr>]\<rparr>)"
  by code_simp

section \<open>Upgrade\<close>

lemma find_append_Some: "find P xs = Some x \<Longrightarrow> find P (xs @ ys) = Some x"
  by (induction xs) (auto split: if_splits)

lemma Plan_findById_key: "Plan_findById s i = Some pl \<Longrightarrow> plan_id pl = i"
  unfolding Plan_findById_def by (rule find_key)

lemma verifyPayment_passes:
  "vr_paymentId req = Some pid \<Longrightarrow> Payment_findById s pid = Some p \<Longrightarrow> passes_checks vsig req p
     \<Longrightarrow> verifyPayment vsig now rnd req s = reconcile now rnd req p s"
  by (auto simp add: verifyPayment_def passes_checks_def)

lemma verifyPayment_stopped:
  "vr_paymentId req = Some pid \<Longrightarrow> Payment_findById s pid = Some p \<Longrightarrow> \<not> passes_checks vsig req p
     \<Longrightarrow> (\<exists>e. fst (verifyPayment vsig now rnd req s) = Inl e)
         \<and> subscriptions (snd (verifyPayment vsig now rnd req s)) = subscriptions s"
  by (auto simp add: verifyPayment_def passes_checks_def reject_def save_payment_frame
        split: sig_outcome.splits)

lemma verifyPayment_Inr_passes:
  assumes "verifyPayment vsig now rnd req s = (Inr r, s')"
  shows "\<exists>pid p. vr_paymentId req = Some pid \<and> Payment_findById s pid = Some p
           \<and> passes_checks vsig req p \<and> reconcile now rnd req p s = (Inr r, s')"
  using assms
  by (auto simp add: verifyPayment_def reject_def passes_checks_def
        split: if_splits option.splits sig_outcome.splits)

lemma Payment_findById_subs:
  "Payment_findById (s\<lparr>subscriptions := xs, next_oid := n\<rparr>) = Payment_findById s"
  by (simp add: fun_eq_iff Payment_findById_def)

lemma verify_upgrade_Inr:
  assumes "verify_upgrade now p pl s = (Inr r, s')"
  shows "\<exists>t oldSub oldPlan.
           targetSubscription p = Some t \<and> Subscription_findById s t = Some oldSub
           \<and> Plan_findById s (sub_plan oldSub) = Some oldPlan \<and> priority oldPlan < priority pl
           \<and> r = PlanUpgraded
                   \<lparr>sub_id = next_oid s, sub_user = pay_user p, sub_plan = pay_plan p,
                    sub_status = SActive, startDate = now,
                    endDate = now + duration pl * ms_per_day, paymentId = Some (pay_id p),
                    cancelledAt = None, cancellationReason = None,
                    billingHistory = [billing_success now p]\<rparr>
           \<and> subscriptions s'
               = map (\<lambda>y. if sub_id y = t then oldSub\<lparr>sub_status := SExpired\<rparr> else y)
                   (subscriptions s)
                 @ [\<lparr>sub_id = next_oid s, sub_user = pay_user p, sub_plan = pay_plan p,
                     sub_status = SActive, startDate = now,
                     endDate = now + duration pl * ms_per_day, paymentId = Some (pay_id p),
                     cancelledAt = None, cancellationReason = None,
                     billingHistory = [billing_success now p]\<rparr>]
           \<and> (\<forall>i. Payment_findById s' i
                     = (if pay_id p = i
                        then map_option (\<lambda>_. p\<lparr>pay_subscription := Some (next_oid s)\<rparr>)
                               (Payment_findById s i)
                        else Payment_findById s i))"
  using assms
  by (auto simp add: verify_upgrade_def reject_def Let_def Subscription_create_def
        save_payment_frame save_subscription_frame Payment_findById_save
        lookups_save_subscription save_subscription_def Payment_findById_subs
        split: if_splits option.splits dest: Subscription_findById_key)

lemma verify_renew_not_upgraded: "verify_renew now p pl s \<noteq> (Inr (PlanUpgraded x), s')"
  by (auto simp add: verify_renew_def reject_def Let_def split: if_splits option.splits)

lemma verify_purchase_not_upgraded: "verify_purchase now p pl s \<noteq> (Inr (PlanUpgraded x), s')"
  by (auto simp add: verify_purchase_def reject_def Let_def split_beta split: if_splits option.splits)

lemma upgrade_success:
  assumes "verifyPayment vsig now rnd req s = (Inr (PlanUpgraded newSub), s')"
  shows "\<exists>pid p pl t oldSub oldPlan.
           vr_paymentId req = Some pid \<and> Payment_findById s pid = Some p \<and> pay_action p = Upgrade
           \<and> Plan_findById s (pay_plan p) = Some pl
           \<and> targetSubscription p = Some t \<and> Subscription_findById s t = Some oldSub
           \<and> Plan_findById s (sub_plan oldSub) = Some oldPlan
           \<and> priority oldPlan < priority pl
           \<and> newSub = \<lparr>sub_id = next_oid s, sub_user = pay_user p, sub_plan = plan_id pl,
                        sub_status = SActive, startDate = now,
                        endDate = now + duration pl * ms_per_day, paymentId = Some pid,
                        cancelledAt = None, cancellationReason = None,
                        billingHistory = [\<lparr>be_date = now, be_amount = pay_amount p,
                                            be_paymentId = pid, be_status = BSuccess\<rparr>]\<rparr>
           \<and> subscriptions s'
               = map (\<lambda>y. if sub_id y = t then oldSub\<lparr>sub_status := SExpired\<rparr> else y)
                   (subscriptions s) @ [newSub]
           \<and> Subscription_findById s' t = Some (oldSub\<lparr>sub_status := SExpired\<rparr>)
           \<and> map_option pay_subscription (Payment_findById s' pid) = Some (Some (sub_id newSub))
           \<and> map_option pay_status (Payment_findById s' pid) = Some PCompleted"
proof -
  from verifyPayment_Inr [OF assms] obtain pid p where
    pid: "vr_paymentId req = Some pid" and p: "Payment_findById s pid = Some p"
    and rec: "reconcile now rnd req p s = (Inr (PlanUpgraded newSub), s')"
    by blast
  define p1 where "p1 = markCompleted now rnd (Some (razorpay_payment_id req))
      (Some (razorpay_signature req)) (Some \<lparr>gr_body = Some req, gr_webhook = []\<rparr>) p"
  define s1 where "s1 = save_payment p1 s"
  from reconcile_Inr [OF rec] obtain pl where
    pl: "Plan_findById s (pay_plan p) = Some pl"
    and br: "(case pay_action p of
                Renew \<Rightarrow> verify_renew now p1 pl s1
              | Upgrade \<Rightarrow> verify_upgrade now p1 pl s1
              | Purchase \<Rightarrow> verify_purchase now p1 pl s1) = (Inr (PlanUpgraded newSub), s')"
    unfolding p1_def s1_def by auto
  have act: "pay_action p = Upgrade"
    using br verify_renew_not_upgraded verify_purchase_not_upgraded
    by (cases "pay_action p") auto
  with br have up: "verify_upgrade now p1 pl s1 = (Inr (PlanUpgraded newSub), s')"
    by simp
  have key: "pay_id p = pid" by (rule Payment_findById_key [OF p])
  have plk: "plan_id pl = pay_plan p" by (rule Plan_findById_key [OF pl])
  from verify_upgrade_Inr [OF up] obtain t oldSub oldPlan where
    tgt: "targetSubscription p1 = Some t" and old: "Subscription_findById s1 t = Some oldSub"
    and oldPlan: "Plan_findById s1 (sub_plan oldSub) = Some oldPlan"
    and prio: "priority oldPlan < priority pl"
    and new: "newSub = \<lparr>sub_id = next_oid s1, sub_user = pay_user p1, sub_plan = pay_plan p1,
                    sub_status = SActive, startDate = now,
                    endDate = now + duration pl * ms_per_day, paymentId = Some (pay_id p1),
                    cancelledAt = None, cancellationReason = None,
                    billingHistory = [billing_success now p1]\<rparr>"
    and subs: "subscriptions s'
               = map (\<lambda>y. if sub_id y = t then oldSub\<lparr>sub_status := SExpired\<rparr> else y)
                   (subscriptions s1) @ [newSub]"
    and pays: "\<And>i. Payment_findById s' i
                     = (if pay_id p1 = i
                        then map_option (\<lambda>_. p1\<lparr>pay_subscription := Some (next_oid s1)\<rparr>)
                               (Payment_findById s1 i)
                        else Payment_findById s1 i)"
    by auto
  have tgt': "targetSubscription p = Some t" using tgt by (simp add: p1_def markCompleted_keeps)
  have old': "Subscription_findById s t = Some oldSub"
    using old by (simp add: s1_def lookups_save_payment)
  have oldPlan': "Plan_findById s (sub_plan oldSub) = Some oldPlan"
    using oldPlan by (simp add: s1_def lookups_save_payment)
  have new': "newSub = \<lparr>sub_id = next_oid s, sub_user = pay_user p, sub_plan = plan_id pl,
                        sub_status = SActive, startDate = now,
                        endDate = now + duration pl * ms_per_day, paymentId = Some pid,
                        cancelledAt = None, cancellationReason = None,
                        billingHistory = [\<lparr>be_date = now, be_amount = pay_amount p,
                                            be_paymentId = pid, be_status = BSuccess\<rparr>]\<rparr>"
    using new key plk
    by (simp add: s1_def p1_def save_payment_frame markCompleted_keeps billing_success_def)
  have subs': "subscriptions s'
               = map (\<lambda>y. if sub_id y = t then oldSub\<lparr>sub_status := SExpired\<rparr> else y)
                   (subscriptions s) @ [newSub]"
    using subs by (simp add: s1_def save_payment_frame)
  have tk: "sub_id oldSub = t" by (rule Subscription_findById_key [OF old'])
  have "find (\<lambda>y. sub_id y = t)
          (map (\<lambda>y. if sub_id y = sub_id (oldSub\<lparr>sub_status := SExpired\<rparr>)
                     then oldSub\<lparr>sub_status := SExpired\<rparr> else y) (subscriptions s))
        = Some (oldSub\<lparr>sub_status := SExpired\<rparr>)"
    using find_replace [of sub_id t "oldSub\<lparr>sub_status := SExpired\<rparr>" "subscriptions s"] old' tk
    by (simp add: Subscription_findById_def)
  then have look: "Subscription_findById s' t = Some (oldSub\<lparr>sub_status := SExpired\<rparr>)"
    using tk by (simp add: Subscription_findById_def subs' find_append_Some)
  have p1s: "Payment_findById s1 pid = Some p1"
    using p key by (simp add: s1_def Payment_findById_save p1_def markCompleted_keeps)
  have pay': "Payment_findById s' pid = Some (p1\<lparr>pay_subscription := Some (next_oid s1)\<rparr>)"
    using pays [of pid] p1s key by (simp add: p1_def markCompleted_keeps)
  have link: "map_option pay_subscription (Payment_findById s' pid) = Some (Some (sub_id newSub))"
    by (simp add: pay' new)
  have stat: "map_option pay_status (Payment_findById s' pid) = Some PCompleted"
    by (simp add: pay' p1_def markCompleted_keeps)
  show ?thesis
    using pid p act pl tgt' old' oldPlan' prio new' subs' look link stat
    by (intro exI [of _ pid] exI [of _ p] exI [of _ pl] exI [of _ t] exI [of _ oldSub]
          exI [of _ oldPlan]) simp
qed

lemma upgrade_refused:
  assumes "vr_paymentId req = Some pid" "Payment_findById s pid = Some p"
    and "pay_action p = Upgrade" "targetSubscription p = Some t"
    and "Subscription_findById s t = Some oldSub"
    and "Plan_findById s (sub_plan oldSub) = Some oldPlan"
    and "Plan_findById s (pay_plan p) = Some pl" "priority pl \<le> priority oldPlan"
  shows "subscriptions (snd (verifyPayment vsig now rnd req s)) = subscriptions s
         \<and> (\<forall>x. fst (verifyPayment vsig now rnd req s) \<noteq> Inr (PlanUpgraded x))
         \<and> (passes_checks vsig req p \<and> \<not> (pay_status p = PCompleted \<and> pay_subscription p \<noteq> None)
              \<longrightarrow> fst (verifyPayment vsig now rnd req s)
                    = Inl (ApiError
                        ''Cannot downgrade or choose same level plan. Upgrade only to higher plans.''
                        400))"
proof (cases "passes_checks vsig req p")
  case False
  from verifyPayment_stopped [OF assms(1,2) False, of now rnd] False show ?thesis by auto
next
  case True
  have v: "verifyPayment vsig now rnd req s = reconcile now rnd req p s"
    by (rule verifyPayment_passes [OF assms(1,2) True])
  show ?thesis
  proof (cases "pay_status p = PCompleted \<and> pay_subscription p \<noteq> None")
    case True
    then show ?thesis by (simp add: v reconcile_def)
  next
    case False
    then show ?thesis
      using assms(3-)
      by (auto simp add: v reconcile_def Let_def lookups_save_payment markCompleted_keeps
            verify_upgrade_def reject_def save_payment_frame)
  qed
qed

lemma createOrder_same_plan:
  assumes "Plan_findById s planId = Some npl" "0 < plan_amount npl"
    and "Subscription_findById s sid = Some tsub" "sub_user tsub = u" "sub_plan tsub = planId"
  shows "createOrder (Some u) now rnd gw
           \<lparr>co_planId = Some planId, co_action = Some ''upgrade'', co_subscriptionId = Some sid\<rparr> s
         = (Inl (ApiError ''Cannot upgrade to the same plan'' 400), s)"
  using assms Plan_findById_key [OF assms(1)]
  by (simp add: createOrder_def check_target_def)

text \<open>
  C6. First: a verification that answers with an upgrade went through an upgrade-payment
  whose target subscription is on a plan of strictly lower priority than the payment's
  plan; the old subscription is stored as expired; the new one is on the new plan,
  active, starts \<open>now\<close>, ends the new plan's duration in days later, carries the payment,
  and the payment is linked to it. Second: when the target's plan has a priority greater
  than or equal to the new plan's (the same plan included), verification never answers
  with an upgrade and leaves the subscriptions as they are, and a request that reaches
  reconciliation of a payment not yet completed and linked is refused with the downgrade
  error. Third: \<open>createOrder\<close> refuses an upgrade order whose target is already on the
  requested plan.
\<close>

theorem upgrade_rules:
  "(verifyPayment vsig now rnd req s = (Inr (PlanUpgraded newSub), s')
      \<longrightarrow> (\<exists>pid p pl t oldSub oldPlan.
             vr_paymentId req = Some pid \<and> Payment_findById s pid = Some p
             \<and> pay_action p = Upgrade \<and> Plan_findById s (pay_plan p) = Some pl
             \<and> targetSubscription p = Some t \<and> Subscription_findById s t = Some oldSub
             \<and> Plan_findById s (sub_plan oldSub) = Some oldPlan
             \<and> priority oldPlan < priority pl
             \<and> newSub = \<lparr>sub_id = next_oid s, sub_user = pay_user p, sub_plan = plan_id pl,
                          sub_status = SActive, startDate = now,
                          endDate = now + duration pl * ms_per_day, paymentId = Some pid,
                          cancelledAt = None, cancellationReason = None,
                          billingHistory = [\<lparr>be_date = now, be_amount = pay_amount p,
                                              be_paymentId = pid, be_status = BSuccess\<rparr>]\<rparr>
             \<and> subscriptions s'
                 = map (\<lambda>y. if sub_id y = t then oldSub\<lparr>sub_status := SExpired\<rparr> else y)
                     (subscriptions s) @ [newSub]
             \<and> Subscription_findById s' t = Some (oldSub\<lparr>sub_status := SExpired\<rparr>)
             \<and> map_option pay_subscription (Payment_findById s' pid) = Some (Some (sub_id newSub))
             \<and> map_option pay_status (Payment_findById s' pid) = Some PCompleted))
   \<and> (vr_paymentId req = Some pid' \<and> Payment_findById s pid' = Some p'
       \<and> pay_action p' = Upgrade \<and> targetSubscription p' = Some t'
       \<and> Subscription_findById s t' = Some oldSub'
       \<and> Plan_findById s (sub_plan oldSub') = Some oldPlan'
       \<and> Plan_findById s (pay_plan p') = Some pl' \<and> priority pl' \<le> priority oldPlan'
      \<longrightarrow> subscriptions (snd (verifyPayment vsig now rnd req s)) = subscriptions s
          \<and> (\<forall>x. fst (verifyPayment vsig now rnd req s) \<noteq> Inr (PlanUpgraded x))
          \<and> (passes_checks vsig req p'
               \<and> \<not> (pay_status p' = PCompleted \<and> pay_subscription p' \<noteq> None)
              \<longrightarrow> fst (verifyPayment vsig now rnd req s)
                    = Inl (ApiError
                        ''Cannot downgrade or choose same level plan. Upgrade only to higher plans.''
                        400)))
   \<and> (Plan_findById s planId = Some npl \<and> 0 < plan_amount npl
       \<and> Subscription_findById s sid = Some tsub \<and> sub_user tsub = u \<and> sub_plan tsub = planId
      \<longrightarrow> createOrder (Some u) now rnd gw
            \<lparr>co_planId = Some planId, co_action = Some ''upgrade'', co_subscriptionId = Some sid\<rparr> s
          = (Inl (ApiError ''Cannot upgrade to the same plan'' 400), s))"
  using upgrade_success [of vsig now rnd req s newSub s']
    upgrade_refused [of req pid' s p' t' oldSub' oldPlan' pl' vsig now rnd]
    createOrder_same_plan [of s planId npl sid tsub u now rnd gw]
  by blast

theorem upgrade_rules_witness:
  "verifyPayment sig_ok t0 ''U'' (verify_req ''o30'' 30) up0
     = (Inr (PlanUpgraded
              \<lparr>sub_id = 40, sub_user = 7, sub_plan = 2, sub_status = SActive, startDate = t0,
               endDate = t0 + 90 * ms_per_day, paymentId = Some 30, cancelledAt = None,
               cancellationReason = None,
               billingHistory = [\<lparr>be_date = t0, be_amount = 49900, be_paymentId = 30,
                                  be_status = BSuccess\<rparr>]\<rparr>),
        snd (verifyPayment sig_ok t0 ''U'' (verify_req ''o30'' 30) up0))
   \<and> map_option sub_status
        (Subscription_findById (snd (verifyPayment sig_ok t0 ''U'' (verify_req ''o30'' 30) up0)) 20)
       = Some SExpired
   \<and> fst (verifyPayment sig_ok t0 ''U'' (verify_req ''o31'' 31) up0)
       = Inl (ApiError
               ''Cannot downgrade or choose same level plan. Upgrade only to higher plans.'' 400)
   \<and> createOrder (Some 7) t0 ''U'' (gateway_ok ''o9'' 19900) (order_req ''upgrade'' 1 (Some 20)) up0
       = (Inl (ApiError ''Cannot upgrade to the same plan'' 400), up0)"
proof -
  let ?new = "\<lparr>sub_id = 40, sub_user = 7, sub_plan = 2, sub_status = SActive, startDate = t0,
               endDate = t0 + 90 * ms_per_day, paymentId = Some 30, cancelledAt = None,
               cancellationReason = None,
               billingHistory = [\<lparr>be_date = t0, be_amount = 49900, be_paymentId = 30,
                                  be_status = BSuccess\<rparr>]\<rparr>"
  let ?s' = "snd (verifyPayment sig_ok t0 ''U'' (verify_req ''o30'' 30) up0)"
  have h: "verifyPayment sig_ok t0 ''U'' (verify_req ''o30'' 30) up0 = (Inr (PlanUpgraded ?new), ?s')"
    by code_simp
  from upgrade_rules [THEN conjunct1, rule_format, OF h]
  obtain pid p t oldSub where
    a: "vr_paymentId (verify_req ''o30'' 30) = Some pid" "Payment_findById up0 pid = Some p"
       "targetSubscription p = Some t"
       "Subscription_findById ?s' t = Some (oldSub\<lparr>sub_status := SExpired\<rparr>)"
    by blast
  from a(1) have "pid = 30" by (simp add: verify_req_def)
  with a(2,3) have "t = 20" by (auto simp add: up0_def shop0_def Payment_findById_def)
  with a(4) have w1: "map_option sub_status (Subscription_findById ?s' 20) = Some SExpired"
    by simp
  let ?p = "\<lparr>pay_id = 31, pay_user = 8, pay_plan = 1, pay_subscription = None,
          pay_action = Upgrade, targetSubscription = Some 21, pay_amount = 19900,
          razorpayOrderId = Some ''o31'', razorpayPaymentId = None, razorpaySignature = None,
          pay_status = PPending, receipt = Some ''RCPT_31'', invoiceNumber = None,
          invoiceGeneratedAt = None, gatewayResponse = None, webhookReceived = False,
          webhookData = None, completedAt = None, failureReason = None,
          pay_createdAt = t0 - 1000\<rparr>"
  let ?old = "\<lparr>sub_id = 21, sub_user = 8, sub_plan = 2, sub_status = SActive,
          startDate = t0 - 10 * ms_per_day, endDate = t0 + 80 * ms_per_day, paymentId = Some 19,
          cancelledAt = None, cancellationReason = None, billingHistory = []\<rparr>"
  let ?std = "\<lparr>plan_id = 2, plan_name = ''Standard'', plan_amount = 49900, duration = 90,
          priority = 2, renewLimit = 2, allowDowngrade = False\<rparr>"
  let ?bas = "\<lparr>plan_id = 1, plan_name = ''Basic'', plan_amount = 19900, duration = 30,
          priority = 1, renewLimit = 1, allowDowngrade = False\<rparr>"
  have b: "vr_paymentId (verify_req ''o31'' 31) = Some 31 \<and> Payment_findById up0 31 = Some ?p
       \<and> pay_action ?p = Upgrade \<and> targetSubscription ?p = Some 21
       \<and> Subscription_findById up0 21 = Some ?old
       \<and> Plan_findById up0 (sub_plan ?old) = Some ?std
       \<and> Plan_findById up0 (pay_plan ?p) = Some ?bas \<and> priority ?bas \<le> priority ?std"
    by (simp add: verify_req_def up0_def shop0_def Payment_findById_def Subscription_findById_def
          Plan_findById_def)
  have c: "passes_checks sig_ok (verify_req ''o31'' 31) ?p
           \<and> \<not> (pay_status ?p = PCompleted \<and> pay_subscription ?p \<noteq> None)"
    by (simp add: passes_checks_def verify_req_def sig_ok_def)
  from upgrade_rules [THEN conjunct2, THEN conjunct1, rule_format, OF b, of sig_ok t0 "''U''"] c
  have w2: "fst (verifyPayment sig_ok t0 ''U'' (verify_req ''o31'' 31) up0)
       = Inl (ApiError
               ''Cannot downgrade or choose same level plan. Upgrade only to higher plans.'' 400)"
    by blast
  let ?t = "\<lparr>sub_id = 20, sub_user = 7, sub_plan = 1, sub_status = SActive,
          startDate = t0 - 10 * ms_per_day, endDate = t0 + 20 * ms_per_day, paymentId = Some 18,
          cancelledAt = None, cancellationReason = None, billingHistory = []\<rparr>"
  have d: "Plan_findById up0 1 = Some ?bas \<and> 0 < plan_amount ?bas
       \<and> Subscription_findById up0 20 = Some ?t \<and> sub_user ?t = 7 \<and> sub_plan ?t = 1"
    by (simp add: up0_def shop0_def Subscription_findById_def Plan_findById_def)
  from upgrade_rules [THEN conjunct2, THEN conjunct2, rule_format, OF d,
      of t0 "''U''" "gateway_ok ''o9'' 19900"]
  have w3: "createOrder (Some 7) t0 ''U'' (gateway_ok ''o9'' 19900)
              (order_req ''upgrade'' 1 (Some 20)) up0
            = (Inl (ApiError ''Cannot upgrade to the same plan'' 400), up0)"
    by (simp add: order_req_def)
  from h w1 w2 w3 show ?thesis by simp
qed

section \<open>Replay\<close>

lemma verify_renew_links:
  assumes "verify_renew now p pl s = (Inr r, s')"
  shows "\<exists>k. \<forall>i. Payment_findById s' i
                 = (if pay_id p = i
                    then map_option (\<lambda>_. p\<lparr>pay_subscription := Some k\<rparr>) (Payment_findById s i)
                    else Payment_findById s i)"
  using verify_renew_Inr [OF assms]
  by (auto simp add: Payment_findById_save lookups_save_subscription)

lemma verify_upgrade_links:
  assumes "verify_upgrade now p pl s = (Inr r, s')"
  shows "\<exists>k. \<forall>i. Payment_findById s' i
                 = (if pay_id p = i
                    then map_option (\<lambda>_. p\<lparr>pay_subscription := Some k\<rparr>) (Payment_findById s i)
                    else Payment_findById s i)"
  using verify_upgrade_Inr [OF assms] by blast

lemma verify_purchase_Inr:
  assumes "verify_purchase now p pl s = (Inr r, s')"
  shows "r = SubscriptionActivated
               \<lparr>sub_id = next_oid s, sub_user = pay_user p, sub_plan = pay_plan p,
                sub_status = SActive, startDate = now,
                endDate = now + duration pl * ms_per_day, paymentId = Some (pay_id p),
                cancelledAt = None, cancellationReason = None,
                billingHistory = [billing_success now p]\<rparr>
         \<and> subscriptions s'
             = subscriptions s
               @ [\<lparr>sub_id = next_oid s, sub_user = pay_user p, sub_plan = pay_plan p,
                   sub_status = SActive, startDate = now,
                   endDate = now + duration pl * ms_per_day, paymentId = Some (pay_id p),
                   cancelledAt = None, cancellationReason = None,
                   billingHistory = [billing_success now p]\<rparr>]
         \<and> (\<forall>i. Payment_findById s' i
                   = (if pay_id p = i
                      then map_option (\<lambda>_. p\<lparr>pay_subscription := Some (next_oid s)\<rparr>)
                             (Payment_findById s i)
                      else Payment_findById s i))"
  using assms
  by (auto simp add: verify_purchase_def reject_def Let_def Subscription_create_def
        save_payment_frame Payment_findById_save Payment_findById_subs
        split: if_splits option.splits)

lemma verify_renew_not_activated: "verify_renew now p pl s \<noteq> (Inr (SubscriptionActivated x), s')"
  by (auto simp add: verify_renew_def reject_def Let_def split: if_splits option.splits)

lemma verify_upgrade_not_activated: "verify_upgrade now p pl s \<noteq> (Inr (SubscriptionActivated x), s')"
  by (auto simp add: verify_upgrade_def reject_def Let_def split_beta split: if_splits option.splits)

lemma reconcile_links:
  assumes "reconcile now rnd req p s = (Inr r, s')" and "Payment_findById s pid = Some p"
  shows "\<exists>p'. Payment_findById s' pid = Some p' \<and> pay_status p' = PCompleted
              \<and> pay_subscription p' \<noteq> None \<and> razorpayOrderId p' = razorpayOrderId p"
proof -
  define p1 where "p1 = markCompleted now rnd (Some (razorpay_payment_id req))
      (Some (razorpay_signature req)) (Some \<lparr>gr_body = Some req, gr_webhook = []\<rparr>) p"
  define s1 where "s1 = save_payment p1 s"
  have key: "pay_id p = pid" by (rule Payment_findById_key [OF assms(2)])
  have p1s: "Payment_findById s1 pid = Some p1"
    using assms(2) key by (simp add: s1_def Payment_findById_save p1_def markCompleted_keeps)
  show ?thesis
  proof (cases "pay_status p = PCompleted \<and> pay_subscription p \<noteq> None")
    case True
    with reconcile_Inr [OF assms(1)] have "s' = s" by auto
    with True assms(2) show ?thesis by simp
  next
    case False
    with reconcile_Inr [OF assms(1)] obtain pl where
      br: "(case pay_action p of
                Renew \<Rightarrow> verify_renew now p1 pl s1
              | Upgrade \<Rightarrow> verify_upgrade now p1 pl s1
              | Purchase \<Rightarrow> verify_purchase now p1 pl s1) = (Inr r, s')"
      unfolding p1_def s1_def by auto
    have "\<exists>k. \<forall>i. Payment_findById s' i
                 = (if pay_id p1 = i
                    then map_option (\<lambda>_. p1\<lparr>pay_subscription := Some k\<rparr>) (Payment_findById s1 i)
                    else Payment_findById s1 i)"
    proof (cases "pay_action p")
      case Purchase
      with br have "verify_purchase now p1 pl s1 = (Inr r, s')" by simp
      from verify_purchase_Inr [OF this] show ?thesis by blast
    next
      case Renew
      with br have "verify_renew now p1 pl s1 = (Inr r, s')" by simp
      from verify_renew_links [OF this] show ?thesis .
    next
      case Upgrade
      with br have "verify_upgrade now p1 pl s1 = (Inr r, s')" by simp
      from verify_upgrade_links [OF this] show ?thesis .
    qed
    then obtain k where "Payment_findById s' pid = Some (p1\<lparr>pay_subscription := Some k\<rparr>)"
      using p1s key by (auto simp add: p1_def markCompleted_keeps)
    then show ?thesis by (simp add: p1_def markCompleted_keeps)
  qed
qed

lemma replay_verify:
  assumes "Payment_findById s pid = Some p" "pay_status p = PCompleted"
    and "pay_subscription p = Some i" "vr_paymentId req = Some pid"
  shows "subscriptions (snd (verifyPayment vsig now rnd req s)) = subscriptions s
         \<and> (passes_checks vsig req p
              \<longrightarrow> verifyPayment vsig now rnd req s
                    = (Inr (AlreadyProcessed p (populate s (Subscription_findById s i))), s))"
proof (cases "passes_checks vsig req p")
  case False
  from verifyPayment_stopped [OF assms(4,1) False, of now rnd] False show ?thesis by simp
next
  case True
  from verifyPayment_passes [OF assms(4,1) True, of now rnd] assms(2,3) show ?thesis
    by (simp add: reconcile_def)
qed

lemma replay_activate:
  assumes "Payment_findById s pid = Some p" "pay_status p = PCompleted"
    and "pay_subscription p = Some i" "ar_paymentId areq = Some pid"
  shows "snd (activate uid now areq s) = s
         \<and> (\<forall>planId pl. ar_planId areq = Some planId \<and> Plan_findById s planId = Some pl
                \<and> pay_user p = uid
              \<longrightarrow> fst (activate uid now areq s)
                    = Inr (Existing (populate s (Subscription_findById s i))))"
  using assms by (auto simp add: activate_def split: option.splits)

lemma webhook_subscriptions:
  "subscriptions (snd (razorpayWebhook sg body now rnd s)) = subscriptions s"
  by (simp add: razorpayWebhook_def save_payment_frame split: sig_outcome.splits option.splits)

lemma verify_twice:
  assumes "verifyPayment vsig now rnd req s = (Inr r, s')"
  shows "\<exists>p' q. verifyPayment vsig now2 rnd2 req s' = (Inr (AlreadyProcessed p' q), s')"
proof -
  from verifyPayment_Inr_passes [OF assms] obtain pid p where
    pid: "vr_paymentId req = Some pid" and p: "Payment_findById s pid = Some p"
    and ok: "passes_checks vsig req p" and rec: "reconcile now rnd req p s = (Inr r, s')"
    by blast
  from reconcile_links [OF rec p] obtain p' where
    p': "Payment_findById s' pid = Some p'" and st: "pay_status p' = PCompleted"
    and ln: "pay_subscription p' \<noteq> None" and ord: "razorpayOrderId p' = razorpayOrderId p"
    by blast
  have ok': "passes_checks vsig req p'"
    using ok ord by (simp add: passes_checks_def)
  from verifyPayment_passes [OF pid p' ok', of now2 rnd2] st ln show ?thesis
    by (simp add: reconcile_def)
qed

lemma purchase_once:
  assumes "verifyPayment vsig now rnd req s = (Inr (SubscriptionActivated sub), s')"
  shows "subscriptions s' = subscriptions s @ [sub] \<and> length (billingHistory sub) = 1"
proof -
  from verifyPayment_Inr [OF assms] obtain pid p where
    rec: "reconcile now rnd req p s = (Inr (SubscriptionActivated sub), s')"
    by blast
  define p1 where "p1 = markCompleted now rnd (Some (razorpay_payment_id req))
      (Some (razorpay_signature req)) (Some \<lparr>gr_body = Some req, gr_webhook = []\<rparr>) p"
  define s1 where "s1 = save_payment p1 s"
  from reconcile_Inr [OF rec] obtain pl where
    br: "(case pay_action p of
                Renew \<Rightarrow> verify_renew now p1 pl s1
              | Upgrade \<Rightarrow> verify_upgrade now p1 pl s1
              | Purchase \<Rightarrow> verify_purchase now p1 pl s1) = (Inr (SubscriptionActivated sub), s')"
    unfolding p1_def s1_def by auto
  have "pay_action p = Purchase"
    using br verify_renew_not_activated verify_upgrade_not_activated
    by (cases "pay_action p") auto
  with br have "verify_purchase now p1 pl s1 = (Inr (SubscriptionActivated sub), s')" by simp
  from verify_purchase_Inr [OF this] show ?thesis
    by (auto simp add: s1_def save_payment_frame)
qed

section \<open>The downgrade flag\<close>

lemma find_mapped: "find P (map f xs) = map_option f (find (\<lambda>x. P (f x)) xs)"
  by (induction xs) auto

lemma unflag_plan_fields:
  "plan_id (unflag_plan p) = plan_id p" "plan_name (unflag_plan p) = plan_name p"
  "plan_amount (unflag_plan p) = plan_amount p" "duration (unflag_plan p) = duration p"
  "priority (unflag_plan p) = priority p" "renewLimit (unflag_plan p) = renewLimit p"
  by (simp_all add: unflag_plan_def)

lemma unflag_frame:
  "payments (unflag s) = payments s" "subscriptions (unflag s) = subscriptions s"
  "next_oid (unflag s) = next_oid s"
  by (simp_all add: unflag_def)

lemma unflag_lookups:
  "Plan_findById (unflag s) i = map_option unflag_plan (Plan_findById s i)"
  "Payment_findById (unflag s) = Payment_findById s"
  "Subscription_findById (unflag s) = Subscription_findById s"
  "findActive (unflag s) = findActive s"
  "renewCount (unflag s) = renewCount s"
  by (simp_all add: fun_eq_iff Plan_findById_def Payment_findById_def Subscription_findById_def
        findActive_def renewCount_def unflag_def find_mapped unflag_plan_fields)

lemma unflag_saves:
  "save_payment q (unflag s) = unflag (save_payment q s)"
  "save_subscription x (unflag s) = unflag (save_subscription x s)"
  by (simp_all add: save_payment_def save_subscription_def unflag_def)

lemma unflag_Subscription_create:
  "Subscription_create nw u pl pid st e h (unflag s)
     = (fst (Subscription_create nw u pl pid st e h s), unflag (snd (Subscription_create nw u pl pid st e h s)))"
  by (cases e; cases "Plan_findById s pl")
     (simp_all add: Subscription_create_def Let_def unflag_lookups unflag_plan_fields unflag_frame,
      simp_all add: unflag_def)

lemma unflag_Payment_create:
  "Payment_create now rnd u pl amt act tg (unflag s)
     = (fst (Payment_create now rnd u pl amt act tg s),
        unflag (snd (Payment_create now rnd u pl amt act tg s)))"
  by (simp add: Payment_create_def Let_def unflag_def)

lemma unflag_populate: "populate (unflag s) r = unflag_populated (populate s r)"
  by (simp add: populate_def unflag_populated_def unflag_lookups split: option.splits)

lemma unflag_verify_renew:
  "verify_renew now p (unflag_plan pl) (unflag s) = unflag_response unflag_verify (verify_renew now p pl s)"
  by (simp add: verify_renew_def unflag_lookups unflag_plan_fields reject_def Let_def
        unflag_response_def unflag_saves split: option.splits)

lemma unflag_verify_upgrade:
  "verify_upgrade now p (unflag_plan pl) (unflag s)
     = unflag_response unflag_verify (verify_upgrade now p pl s)"
  by (simp add: verify_upgrade_def unflag_lookups unflag_plan_fields reject_def Let_def
        unflag_response_def unflag_saves unflag_Subscription_create split_beta
        split: option.splits)

lemma unflag_verify_purchase:
  "verify_purchase now p (unflag_plan pl) (unflag s)
     = unflag_response unflag_verify (verify_purchase now p pl s)"
  by (simp add: verify_purchase_def unflag_lookups unflag_plan_fields reject_def Let_def
        unflag_response_def unflag_saves unflag_Subscription_create split_beta
        split: option.splits)

lemma unflag_reconcile:
  "reconcile now rnd req p (unflag s) = unflag_response unflag_verify (reconcile now rnd req p s)"
  by (simp add: reconcile_def unflag_lookups unflag_saves reject_def Let_def unflag_populate
        unflag_verify_renew unflag_verify_upgrade unflag_verify_purchase
        split: option.splits action.splits)
     (simp add: unflag_response_def)

lemma unflag_verifyPayment:
  "verifyPayment vsig now rnd req (unflag s)
     = unflag_response unflag_verify (verifyPayment vsig now rnd req s)"
  by (simp add: verifyPayment_def unflag_lookups reject_def unflag_reconcile unflag_saves
        split: option.splits sig_outcome.splits)
     (simp add: unflag_response_def)

lemma unflag_createOrder:
  "createOrder auth now rnd gw req (unflag s) = unflag_response id (createOrder auth now rnd gw req s)"
proof -
  have ct: "check_target u now act (unflag_plan pl) sid (unflag s) = check_target u now act pl sid s"
    for u act pl sid
    by (simp add: check_target_def unflag_lookups unflag_plan_fields
          cong: option.case_cong if_cong)
  show ?thesis
    by (simp add: createOrder_def unflag_lookups unflag_plan_fields ct unflag_Payment_create
          unflag_saves Let_def split_beta unflag_response_def
          split: option.splits sum.splits)
qed

lemma unflag_activate:
  "activate uid now req (unflag s) = unflag_response unflag_activate (activate uid now req s)"
  by (simp add: activate_def unflag_lookups unflag_plan_fields unflag_populate
        unflag_Subscription_create unflag_saves Let_def split_beta unflag_response_def
        split: option.splits)

lemma unflag_cancelSubscription:
  "cancelSubscription uid adm now i (unflag s)
     = unflag_response id (cancelSubscription uid adm now i s)"
  by (simp add: cancelSubscription_def unflag_lookups unflag_saves unflag_response_def
        split: option.splits)

lemma unflag_razorpayWebhook:
  "razorpayWebhook sg body now rnd (unflag s)
     = (fst (razorpayWebhook sg body now rnd s), unflag (snd (razorpayWebhook sg body now rnd s)))"
  by (cases sg; cases body)
     (auto simp add: razorpayWebhook_def unflag_frame unflag_saves split: option.splits)

lemma unflag_expireOldSubscriptions:
  "expireOldSubscriptions now (unflag s) = unflag (expireOldSubscriptions now s)"
  by (simp add: expireOldSubscriptions_def unflag_def)

text \<open>
  C10. Take two stores that are identical except for the \<open>allowDowngrade\<close> values of their
  plans. Every operation answers the same on both and leaves stores that are again
  identical except for those values; a response that carries a populated plan document
  (the replay of verify and of activate) carries that plan's own flag and is otherwise
  the same. In particular every operation refuses on one store exactly when it refuses
  on the other.
\<close>

theorem allowDowngrade_is_inert:
  assumes "unflag s1 = unflag s2"
  shows "unflag_response unflag_verify (verifyPayment vsig now rnd req s1)
           = unflag_response unflag_verify (verifyPayment vsig now rnd req s2)
         \<and> isl (fst (verifyPayment vsig now rnd req s1)) = isl (fst (verifyPayment vsig now rnd req s2))
         \<and> unflag_response id (createOrder auth now rnd gw creq s1)
           = unflag_response id (createOrder auth now rnd gw creq s2)
         \<and> fst (createOrder auth now rnd gw creq s1) = fst (createOrder auth now rnd gw creq s2)
         \<and> unflag_response unflag_activate (activate uid now areq s1)
           = unflag_response unflag_activate (activate uid now areq s2)
         \<and> isl (fst (activate uid now areq s1)) = isl (fst (activate uid now areq s2))
         \<and> unflag_response id (cancelSubscription uid adm now i s1)
           = unflag_response id (cancelSubscription uid adm now i s2)
         \<and> fst (razorpayWebhook sg body now rnd s1) = fst (razorpayWebhook sg body now rnd s2)
         \<and> unflag (snd (razorpayWebhook sg body now rnd s1))
           = unflag (snd (razorpayWebhook sg body now rnd s2))
         \<and> unflag (expireOldSubscriptions now s1) = unflag (expireOldSubscriptions now s2)"
proof -
  have v: "unflag_response unflag_verify (verifyPayment vsig now rnd req s1)
           = unflag_response unflag_verify (verifyPayment vsig now rnd req s2)"
    using assms unflag_verifyPayment [of vsig now rnd req s1]
      unflag_verifyPayment [of vsig now rnd req s2] by simp
  then have v': "isl (fst (verifyPayment vsig now rnd req s1))
                 = isl (fst (verifyPayment vsig now rnd req s2))"
    by (cases "fst (verifyPayment vsig now rnd req s1)"; cases "fst (verifyPayment vsig now rnd req s2)")
       (simp_all add: unflag_response_def)
  have c: "unflag_response id (createOrder auth now rnd gw creq s1)
           = unflag_response id (createOrder auth now rnd gw creq s2)"
    using assms unflag_createOrder [of auth now rnd gw creq s1]
      unflag_createOrder [of auth now rnd gw creq s2] by simp
  then have c': "fst (createOrder auth now rnd gw creq s1) = fst (createOrder auth now rnd gw creq s2)"
    by (simp add: unflag_response_def sum.map_id)
  have a: "unflag_response unflag_activate (activate uid now areq s1)
           = unflag_response unflag_activate (activate uid now areq s2)"
    using assms unflag_activate [of uid now areq s1] unflag_activate [of uid now areq s2] by simp
  then have a': "isl (fst (activate uid now areq s1)) = isl (fst (activate uid now areq s2))"
    by (cases "fst (activate uid now areq s1)"; cases "fst (activate uid now areq s2)")
       (simp_all add: unflag_response_def)
  have k: "unflag_response id (cancelSubscription uid adm now i s1)
           = unflag_response id (cancelSubscription uid adm now i s2)"
    using assms unflag_cancelSubscription [of uid adm now i s1]
      unflag_cancelSubscription [of uid adm now i s2] by simp
  have w: "fst (razorpayWebhook sg body now rnd s1) = fst (razorpayWebhook sg body now rnd s2)
           \<and> unflag (snd (razorpayWebhook sg body now rnd s1))
             = unflag (snd (razorpayWebhook sg body now rnd s2))"
    using assms unflag_razorpayWebhook [of sg body now rnd s1]
      unflag_razorpayWebhook [of sg body now rnd s2] by simp
  have e: "unflag (expireOldSubscriptions now s1) = unflag (expireOldSubscriptions now s2)"
    using assms unflag_expireOldSubscriptions [of now s1] unflag_expireOldSubscriptions [of now s2]
    by simp
  from v v' c c' a a' k w e show ?thesis by simp
qed

theorem allowDowngrade_is_inert_witness:
  "unflag up0 = unflag up0_flagged
   \<and> map allowDowngrade (plans up0) = [False, False, True]
   \<and> map allowDowngrade (plans up0_flagged) = [True, True, True]
   \<and> unflag_response unflag_verify (verifyPayment sig_ok t0 ''U'' (verify_req ''o31'' 31) up0)
       = unflag_response unflag_verify
           (verifyPayment sig_ok t0 ''U'' (verify_req ''o31'' 31) up0_flagged)
   \<and> fst (verifyPayment sig_ok t0 ''U'' (verify_req ''o31'' 31) up0_flagged)
       = Inl (ApiError
               ''Cannot downgrade or choose same level plan. Upgrade only to higher plans.'' 400)"
proof -
  have h: "unflag up0 = unflag up0_flagged"
    by (simp add: up0_flagged_def up0_def shop0_def unflag_def unflag_plan_def)
  have f: "map allowDowngrade (plans up0) = [False, False, True]
           \<and> map allowDowngrade (plans up0_flagged) = [True, True, True]"
    by (simp add: up0_flagged_def up0_def shop0_def)
  have r: "fst (verifyPayment sig_ok t0 ''U'' (verify_req ''o31'' 31) up0_flagged)
       = Inl (ApiError
               ''Cannot downgrade or choose same level plan. Upgrade only to higher plans.'' 400)"
    by code_simp
  from allowDowngrade_is_inert [OF h, of sig_ok t0 "''U''" "verify_req ''o31'' 31"] h f r
  show ?thesis by simp
qed

section \<open>The payment under verification is in its own count\<close>

lemma find_in_set: "find P xs = Some x \<Longrightarrow> x \<in> set xs \<and> P x"
  by (induction xs) (auto split: if_splits)

text \<open>
  The count of the cap check is taken on the store in which the payment was just saved
  as completed: a renew-payment created in the month of \<open>now\<close> is one of the payments
  counted.
\<close>

lemma renewal_counts_itself:
  assumes "Payment_findById s pid = Some p" "pay_action p = Renew" "targetSubscription p = Some t"
    and "startOfMonth now \<le> pay_createdAt p" "pay_createdAt p < startOfNextMonth now"
  shows "1 \<le> renewCount (save_payment (markCompleted now rnd a b g p) s) t now"
proof -
  let ?p1 = "markCompleted now rnd a b g p"
  let ?ok = "\<lambda>q. pay_action q = Renew \<and> targetSubscription q = Some t \<and> pay_status q = PCompleted
                 \<and> startOfMonth now \<le> pay_createdAt q \<and> pay_createdAt q < startOfNextMonth now"
  have c: "pay_createdAt ?p1 = pay_createdAt p"
    by (simp add: markCompleted_def pre_save_def)
  have "p \<in> set (payments s)"
    using assms(1) find_in_set [of "\<lambda>q. pay_id q = pid" "payments s" p]
    by (simp add: Payment_findById_def)
  then have "?p1 \<in> set (payments (save_payment ?p1 s))"
    by (force simp add: save_payment_def markCompleted_keeps)
  moreover have "?ok ?p1"
    using assms(2-) by (simp add: markCompleted_keeps c)
  ultimately have "?p1 \<in> set (filter ?ok (payments (save_payment ?p1 s)))"
    by simp
  then have "0 < length (filter ?ok (payments (save_payment ?p1 s)))"
    by (rule length_pos_if_in_set)
  then show ?thesis
    by (simp add: renewCount_def Suc_le_eq)
qed

text \<open>So under a cap of 1 no such payment ever renews its subscription.\<close>

lemma cap_one_never_renews:
  assumes "vr_paymentId req = Some pid" "Payment_findById s pid = Some p"
    and "pay_action p = Renew" "targetSubscription p = Some t"
    and "Subscription_findById s t = Some sub"
    and "Plan_findById s (sub_plan sub) = Some planForSub" "renewLimit planForSub = 1"
    and "startOfMonth now \<le> pay_createdAt p" "pay_createdAt p < startOfNextMonth now"
  shows "fst (verifyPayment vsig now rnd req s) \<noteq> Inr (SubscriptionRenewed x)"
proof
  assume "fst (verifyPayment vsig now rnd req s) = Inr (SubscriptionRenewed x)"
  then have v: "verifyPayment vsig now rnd req s
                  = (Inr (SubscriptionRenewed x), snd (verifyPayment vsig now rnd req s))"
    by (simp add: prod_eq_iff)
  from verifyPayment_Inr [OF v] assms(1,2) have
    rec: "reconcile now rnd req p s
            = (Inr (SubscriptionRenewed x), snd (verifyPayment vsig now rnd req s))"
    by auto
  define p1 where "p1 = markCompleted now rnd (Some (razorpay_payment_id req))
      (Some (razorpay_signature req)) (Some \<lparr>gr_body = Some req, gr_webhook = []\<rparr>) p"
  define s1 where "s1 = save_payment p1 s"
  from reconcile_Inr [OF rec] assms(3) obtain pl where
    ren: "verify_renew now p1 pl s1
            = (Inr (SubscriptionRenewed x), snd (verifyPayment vsig now rnd req s))"
    unfolding p1_def s1_def by auto
  have k: "sub_id sub = t" by (rule Subscription_findById_key [OF assms(5)])
  have n: "1 \<le> renewCount s1 t now"
    unfolding s1_def p1_def by (rule renewal_counts_itself [OF assms(2,3,4,8,9)])
  have tp: "targetSubscription p1 = Some t"
    using assms(4) by (simp add: p1_def markCompleted_keeps)
  have sb: "Subscription_findById s1 t = Some sub"
    using assms(5) by (simp add: s1_def lookups_save_payment)
  have pf: "Plan_findById s1 (sub_plan sub) = Some planForSub"
    using assms(6) by (simp add: s1_def lookups_save_payment)
  from ren show False
    using tp sb pf assms(7) k n by (simp add: verify_renew_def reject_def)
qed

section \<open>What a replay answers with\<close>

lemma find_append_None: "find P xs = None \<Longrightarrow> find P (xs @ ys) = find P ys"
  by (induction xs) (auto split: if_splits)

lemma reconcile_relinks:
  assumes rec: "reconcile now rnd req p s = (Inr r, s')"
    and p: "Payment_findById s pid = Some p"
    and fresh: "Subscription_findById s (next_oid s) = None"
  shows "\<exists>p' i. Payment_findById s' pid = Some p' \<and> pay_status p' = PCompleted
              \<and> razorpayOrderId p' = razorpayOrderId p
              \<and> pay_subscription p' = Some i \<and> Subscription_findById s' i = answered r"
proof -
  define p1 where "p1 = markCompleted now rnd (Some (razorpay_payment_id req))
      (Some (razorpay_signature req)) (Some \<lparr>gr_body = Some req, gr_webhook = []\<rparr>) p"
  define s1 where "s1 = save_payment p1 s"
  have key: "pay_id p = pid" by (rule Payment_findById_key [OF p])
  have key1: "pay_id p1 = pid" using key by (simp add: p1_def markCompleted_keeps)
  have p1s: "Payment_findById s1 pid = Some p1"
    using p key1 by (simp add: s1_def Payment_findById_save)
  have fresh1: "Subscription_findById s1 (next_oid s1) = None"
    using fresh by (simp add: s1_def lookups_save_payment save_payment_frame)
  have p1f: "pay_status p1 = PCompleted" "razorpayOrderId p1 = razorpayOrderId p"
    by (simp_all add: p1_def markCompleted_keeps)
  show ?thesis
  proof (cases "pay_status p = PCompleted \<and> pay_subscription p \<noteq> None")
    case True
    then obtain i where i: "pay_subscription p = Some i" by auto
    from rec True i have "s' = s" "r = AlreadyProcessed p (populate s (Subscription_findById s i))"
      by (auto simp add: reconcile_def)
    then have "Subscription_findById s' i = answered r"
      by (simp add: populate_def split: option.splits)
    with True p i \<open>s' = s\<close> show ?thesis by simp
  next
    case False
    with reconcile_Inr [OF rec] obtain pl where
      br: "(case pay_action p of
                Renew \<Rightarrow> verify_renew now p1 pl s1
              | Upgrade \<Rightarrow> verify_upgrade now p1 pl s1
              | Purchase \<Rightarrow> verify_purchase now p1 pl s1) = (Inr r, s')"
      unfolding p1_def s1_def by auto
    have "\<exists>i. Payment_findById s' pid = Some (p1\<lparr>pay_subscription := Some i\<rparr>)
              \<and> Subscription_findById s' i = answered r"
    proof (cases "pay_action p")
      case Purchase
      with br have "verify_purchase now p1 pl s1 = (Inr r, s')" by simp
      from verify_purchase_Inr [OF this] have
        r: "answered r = Some \<lparr>sub_id = next_oid s1, sub_user = pay_user p1, sub_plan = pay_plan p1,
                sub_status = SActive, startDate = now,
                endDate = now + duration pl * ms_per_day, paymentId = Some (pay_id p1),
                cancelledAt = None, cancellationReason = None,
                billingHistory = [billing_success now p1]\<rparr>"
        and subs: "subscriptions s'
             = subscriptions s1
               @ [\<lparr>sub_id = next_oid s1, sub_user = pay_user p1, sub_plan = pay_plan p1,
                   sub_status = SActive, startDate = now,
                   endDate = now + duration pl * ms_per_day, paymentId = Some (pay_id p1),
                   cancelledAt = None, cancellationReason = None,
                   billingHistory = [billing_success now p1]\<rparr>]"
        and pays: "Payment_findById s' pid
                     = (if pay_id p1 = pid
                        then map_option (\<lambda>_. p1\<lparr>pay_subscription := Some (next_oid s1)\<rparr>)
                               (Payment_findById s1 pid)
                        else Payment_findById s1 pid)"
        by simp_all
      have "Subscription_findById s' (next_oid s1) = answered r"
        using fresh1 by (simp add: Subscription_findById_def subs r find_append_None)
      moreover have "Payment_findById s' pid = Some (p1\<lparr>pay_subscription := Some (next_oid s1)\<rparr>)"
        using pays p1s key1 by simp
      ultimately show ?thesis by blast
    next
      case Renew
      with br have "verify_renew now p1 pl s1 = (Inr r, s')" by simp
      from verify_renew_Inr [OF this] obtain sub where
        fnd: "Subscription_findById s1 (sub_id sub) = Some sub"
        and r: "r = SubscriptionRenewed
                   (sub\<lparr>endDate := max (endDate sub) now + duration pl * ms_per_day,
                        billingHistory := billingHistory sub @ [billing_success now p1],
                        sub_status := SActive\<rparr>)"
        and s': "s' = save_payment (p1\<lparr>pay_subscription := Some (sub_id sub)\<rparr>)
                    (save_subscription
                       (sub\<lparr>endDate := max (endDate sub) now + duration pl * ms_per_day,
                            billingHistory := billingHistory sub @ [billing_success now p1],
                            sub_status := SActive\<rparr>) s1)"
        by blast
      have "Payment_findById s' pid = Some (p1\<lparr>pay_subscription := Some (sub_id sub)\<rparr>)"
        using p1s key1 by (simp add: s' Payment_findById_save lookups_save_subscription)
      moreover have "Subscription_findById s' (sub_id sub) = answered r"
        using fnd by (simp add: s' r lookups_save_payment Subscription_findById_save)
      ultimately show ?thesis by blast
    next
      case Upgrade
      with br have "verify_upgrade now p1 pl s1 = (Inr r, s')" by simp
      from verify_upgrade_Inr [OF this] obtain t oldSub where
        old: "Subscription_findById s1 t = Some oldSub"
        and r: "r = PlanUpgraded
                   \<lparr>sub_id = next_oid s1, sub_user = pay_user p1, sub_plan = pay_plan p1,
                    sub_status = SActive, startDate = now,
                    endDate = now + duration pl * ms_per_day, paymentId = Some (pay_id p1),
                    cancelledAt = None, cancellationReason = None,
                    billingHistory = [billing_success now p1]\<rparr>"
        and subs: "subscriptions s'
               = map (\<lambda>y. if sub_id y = t then oldSub\<lparr>sub_status := SExpired\<rparr> else y)
                   (subscriptions s1)
                 @ [\<lparr>sub_id = next_oid s1, sub_user = pay_user p1, sub_plan = pay_plan p1,
                     sub_status = SActive, startDate = now,
                     endDate = now + duration pl * ms_per_day, paymentId = Some (pay_id p1),
                     cancelledAt = None, cancellationReason = None,
                     billingHistory = [billing_success now p1]\<rparr>]"
        and pays: "\<And>i. Payment_findById s' i
                     = (if pay_id p1 = i
                        then map_option (\<lambda>_. p1\<lparr>pay_subscription := Some (next_oid s1)\<rparr>)
                               (Payment_findById s1 i)
                        else Payment_findById s1 i)"
        by blast
      have tk: "sub_id oldSub = t" by (rule Subscription_findById_key [OF old])
      have ne: "t \<noteq> next_oid s1" using old fresh1 by auto
      have "find (\<lambda>y. sub_id y = next_oid s1)
              (map (\<lambda>y. if sub_id y = t then oldSub\<lparr>sub_status := SExpired\<rparr> else y)
                 (subscriptions s1)) = None"
        using find_replace [of sub_id "next_oid s1" "oldSub\<lparr>sub_status := SExpired\<rparr>" "subscriptions s1"]
          tk ne fresh1
        by (simp add: Subscription_findById_def)
      then have "Subscription_findById s' (next_oid s1) = answered r"
        by (simp add: Subscription_findById_def subs r find_append_None)
      moreover have "Payment_findById s' pid = Some (p1\<lparr>pay_subscription := Some (next_oid s1)\<rparr>)"
        using pays [of pid] p1s key1 by simp
      ultimately show ?thesis by blast
    qed
    then show ?thesis using p1f by auto
  qed
qed

lemma verify_twice_same:
  assumes "verifyPayment vsig now rnd req s = (Inr r, s')"
    and "Subscription_findById s (next_oid s) = None"
  shows "\<exists>p'. verifyPayment vsig now2 rnd2 req s'
                = (Inr (AlreadyProcessed p'
                         (map_option (\<lambda>x. (x, Plan_findById s' (sub_plan x))) (answered r))), s')"
proof -
  from verifyPayment_Inr_passes [OF assms(1)] obtain pid p where
    pid: "vr_paymentId req = Some pid" and p: "Payment_findById s pid = Some p"
    and ok: "passes_checks vsig req p" and rec: "reconcile now rnd req p s = (Inr r, s')"
    by blast
  from reconcile_relinks [OF rec p assms(2)] obtain p' i where
    p': "Payment_findById s' pid = Some p'" and st: "pay_status p' = PCompleted"
    and ord: "razorpayOrderId p' = razorpayOrderId p"
    and ln: "pay_subscription p' = Some i" and sb: "Subscription_findById s' i = answered r"
    by blast
  have ok': "passes_checks vsig req p'"
    using ok ord by (simp add: passes_checks_def)
  from verifyPayment_passes [OF pid p' ok', of now2 rnd2] st ln sb show ?thesis
    by (simp add: reconcile_def populate_def split: option.splits)
qed

lemma replay_verify_answer:
  assumes "Payment_findById s pid = Some p" "pay_status p = PCompleted"
    and "pay_subscription p = Some i" "vr_paymentId req = Some pid"
  shows "subscriptions (snd (verifyPayment vsig now rnd req s)) = subscriptions s
         \<and> (passes_checks vsig req p
              \<longrightarrow> verifyPayment vsig now rnd req s
                    = (Inr (AlreadyProcessed p
                            (map_option (\<lambda>x. (x, Plan_findById s (sub_plan x)))
                               (Subscription_findById s i))), s))"
  using replay_verify [OF assms, of vsig now rnd]
  by (simp add: populate_def split: option.splits)

lemma replay_activate_answer:
  assumes "Payment_findById s pid = Some p" "pay_status p = PCompleted"
    and "pay_subscription p = Some i" "ar_paymentId areq = Some pid"
  shows "snd (activate uid now areq s) = s
         \<and> (\<forall>planId pl. ar_planId areq = Some planId \<and> Plan_findById s planId = Some pl
                \<and> pay_user p = uid
              \<longrightarrow> fst (activate uid now areq s)
                    = Inr (Existing (map_option (\<lambda>x. (x, Plan_findById s (sub_plan x)))
                                       (Subscription_findById s i))))"
  using replay_activate [OF assms, of uid now]
  by (simp add: populate_def split: option.splits)

text \<open>
  C3. For a payment that is completed and linked to a subscription: a verify call leaves
  the subscriptions as they are (no subscription is created, no billing-history entry is
  appended), and when it passes the checks that precede reconciliation it leaves the
  whole store as it is and answers with the payment and the subscription that the store
  holds under the linked id, together with that subscription's plan; an activate call
  leaves the store as it is and, for an existing plan and the owner, answers with the
  same linked subscription; a webhook delivery never touches the subscriptions.
  Completing twice: after any successful verification, the same request again, at any
  time, is answered as already processed and changes nothing; in a store whose next id
  is not yet in use, the subscription it answers with is the very subscription the first
  verification answered with; and the verification of a purchase has created exactly one
  subscription, with exactly one billing-history entry.
\<close>

theorem replay_is_idempotent:
  "(Payment_findById s pid = Some p \<and> pay_status p = PCompleted \<and> pay_subscription p = Some i
      \<longrightarrow> (vr_paymentId req = Some pid
             \<longrightarrow> subscriptions (snd (verifyPayment vsig now rnd req s)) = subscriptions s
                 \<and> (passes_checks vsig req p
                      \<longrightarrow> verifyPayment vsig now rnd req s
                            = (Inr (AlreadyProcessed p
                                    (map_option (\<lambda>x. (x, Plan_findById s (sub_plan x)))
                                       (Subscription_findById s i))), s)))
          \<and> (ar_paymentId areq = Some pid
               \<longrightarrow> snd (activate uid now areq s) = s
                   \<and> (\<forall>planId pl. ar_planId areq = Some planId \<and> Plan_findById s planId = Some pl
                          \<and> pay_user p = uid
                        \<longrightarrow> fst (activate uid now areq s)
                              = Inr (Existing (map_option (\<lambda>x. (x, Plan_findById s (sub_plan x)))
                                                 (Subscription_findById s i)))))
          \<and> subscriptions (snd (razorpayWebhook sg body now rnd s)) = subscriptions s)
   \<and> (verifyPayment vsig now rnd req s = (Inr r, s')
        \<longrightarrow> (\<exists>p' q. verifyPayment vsig now2 rnd2 req s' = (Inr (AlreadyProcessed p' q), s')))
   \<and> (verifyPayment vsig now rnd req s = (Inr r, s') \<and> Subscription_findById s (next_oid s) = None
        \<longrightarrow> (\<exists>p'. verifyPayment vsig now2 rnd2 req s'
                    = (Inr (AlreadyProcessed p'
                             (map_option (\<lambda>x. (x, Plan_findById s' (sub_plan x))) (answered r))),
                       s')))
   \<and> (verifyPayment vsig now rnd req s = (Inr (SubscriptionActivated sub), s')
        \<longrightarrow> subscriptions s' = subscriptions s @ [sub] \<and> length (billingHistory sub) = 1)"
  using replay_verify_answer [of s pid p i req vsig now rnd]
    replay_activate_answer [of s pid p i areq uid now]
    webhook_subscriptions [of sg body now rnd s]
    verify_twice [of vsig now rnd req s r s' now2 rnd2]
    verify_twice_same [of vsig now rnd req s r s' now2 rnd2]
    purchase_once [of vsig now rnd req s sub s']
  by blast

theorem replay_is_idempotent_witness:
  "Payment_findById cap2 10 = Some paid_and_linked
   \<and> pay_status paid_and_linked = PCompleted \<and> pay_subscription paid_and_linked = Some 11
   \<and> verifyPayment sig_ok (t0 + 7000) ''Z'' (verify_req ''o1'' 10) cap2
       = (Inr (AlreadyProcessed paid_and_linked
               (Some (\<lparr>sub_id = 11, sub_user = 7, sub_plan = 2, sub_status = SActive,
                       startDate = t0 + 1000, endDate = t0 + 1000 + 90 * ms_per_day,
                       paymentId = Some 10, cancelledAt = None, cancellationReason = None,
                       billingHistory = [\<lparr>be_date = t0 + 1000, be_amount = 49900,
                                          be_paymentId = 10, be_status = BSuccess\<rparr>]\<rparr>,
                      Some \<lparr>plan_id = 2, plan_name = ''Standard'', plan_amount = 49900,
                            duration = 90, priority = 2, renewLimit = 2,
                            allowDowngrade = False\<rparr>))), cap2)
   \<and> activate 7 (t0 + 7000) \<lparr>ar_paymentId = Some 10, ar_planId = Some 2\<rparr> cap2
       = (Inr (Existing
               (Some (\<lparr>sub_id = 11, sub_user = 7, sub_plan = 2, sub_status = SActive,
                       startDate = t0 + 1000, endDate = t0 + 1000 + 90 * ms_per_day,
                       paymentId = Some 10, cancelledAt = None, cancellationReason = None,
                       billingHistory = [\<lparr>be_date = t0 + 1000, be_amount = 49900,
                                          be_paymentId = 10, be_status = BSuccess\<rparr>]\<rparr>,
                      Some \<lparr>plan_id = 2, plan_name = ''Standard'', plan_amount = 49900,
                            duration = 90, priority = 2, renewLimit = 2,
                            allowDowngrade = False\<rparr>))), cap2)
   \<and> Subscription_findById cap1 (next_oid cap1) = None
   \<and> verifyPayment sig_ok (t0 + 1000) ''B'' (verify_req ''o1'' 10) cap1
       = (Inr (SubscriptionActivated
                \<lparr>sub_id = 11, sub_user = 7, sub_plan = 2, sub_status = SActive,
                 startDate = t0 + 1000, endDate = t0 + 1000 + 90 * ms_per_day,
                 paymentId = Some 10, cancelledAt = None, cancellationReason = None,
                 billingHistory = [\<lparr>be_date = t0 + 1000, be_amount = 49900, be_paymentId = 10,
                                    be_status = BSuccess\<rparr>]\<rparr>), cap2)
   \<and> (\<exists>p'. verifyPayment sig_ok (t0 + 8000) ''Y'' (verify_req ''o1'' 10) cap2
               = (Inr (AlreadyProcessed p'
                       (Some (\<lparr>sub_id = 11, sub_user = 7, sub_plan = 2, sub_status = SActive,
                               startDate = t0 + 1000, endDate = t0 + 1000 + 90 * ms_per_day,
                               paymentId = Some 10, cancelledAt = None, cancellationReason = None,
                               billingHistory = [\<lparr>be_date = t0 + 1000, be_amount = 49900,
                                                  be_paymentId = 10, be_status = BSuccess\<rparr>]\<rparr>,
                              Some \<lparr>plan_id = 2, plan_name = ''Standard'', plan_amount = 49900,
                                    duration = 90, priority = 2, renewLimit = 2,
                                    allowDowngrade = False\<rparr>))), cap2))
   \<and> subscriptions cap2
       = subscriptions cap1
         @ [\<lparr>sub_id = 11, sub_user = 7, sub_plan = 2, sub_status = SActive,
             startDate = t0 + 1000, endDate = t0 + 1000 + 90 * ms_per_day,
             paymentId = Some 10, cancelledAt = None, cancellationReason = None,
             billingHistory = [\<lparr>be_date = t0 + 1000, be_amount = 49900, be_paymentId = 10,
                                be_status = BSuccess\<rparr>]\<rparr>]"
proof -
  let ?x = "\<lparr>sub_id = 11, sub_user = 7, sub_plan = 2, sub_status = SActive,
             startDate = t0 + 1000, endDate = t0 + 1000 + 90 * ms_per_day,
             paymentId = Some 10, cancelledAt = None, cancellationReason = None,
             billingHistory = [\<lparr>be_date = t0 + 1000, be_amount = 49900, be_paymentId = 10,
                                be_status = BSuccess\<rparr>]\<rparr>"
  let ?std = "\<lparr>plan_id = 2, plan_name = ''Standard'', plan_amount = 49900, duration = 90,
                priority = 2, renewLimit = 2, allowDowngrade = False\<rparr>"
  have f: "Payment_findById cap2 10 = Some paid_and_linked" by code_simp
  have h: "Payment_findById cap2 10 = Some paid_and_linked \<and> pay_status paid_and_linked = PCompleted
           \<and> pay_subscription paid_and_linked = Some 11"
    using f by (simp add: paid_and_linked_def)
  have rq: "vr_paymentId (verify_req ''o1'' 10) = Some 10" by (simp add: verify_req_def)
  have ok: "passes_checks sig_ok (verify_req ''o1'' 10) paid_and_linked"
    by (simp add: passes_checks_def verify_req_def sig_ok_def paid_and_linked_def)
  have pl: "ar_planId \<lparr>ar_paymentId = Some 10, ar_planId = Some 2\<rparr> = Some 2
            \<and> Plan_findById cap2 2 = Some ?std \<and> pay_user paid_and_linked = 7"
    by code_simp
  have sb: "Subscription_findById cap2 11 = Some ?x" by code_simp
  have sp: "sub_plan ?x = 2" by simp
  note first = replay_is_idempotent [THEN conjunct1, rule_format, OF h,
      of "verify_req ''o1'' 10" sig_ok "t0 + 7000" "''Z''"
         "\<lparr>ar_paymentId = Some 10, ar_planId = Some 2\<rparr>" 7]
  from first rq ok have
    "verifyPayment sig_ok (t0 + 7000) ''Z'' (verify_req ''o1'' 10) cap2
       = (Inr (AlreadyProcessed paid_and_linked
               (map_option (\<lambda>x. (x, Plan_findById cap2 (sub_plan x)))
                  (Subscription_findById cap2 11))), cap2)"
    by blast
  then have v:
    "verifyPayment sig_ok (t0 + 7000) ''Z'' (verify_req ''o1'' 10) cap2
       = (Inr (AlreadyProcessed paid_and_linked (Some (?x, Some ?std))), cap2)"
    using sb pl by simp
  from first pl have
    "activate 7 (t0 + 7000) \<lparr>ar_paymentId = Some 10, ar_planId = Some 2\<rparr> cap2
       = (Inr (Existing (map_option (\<lambda>x. (x, Plan_findById cap2 (sub_plan x)))
                          (Subscription_findById cap2 11))), cap2)"
    by (simp add: prod_eq_iff)
  then have a:
    "activate 7 (t0 + 7000) \<lparr>ar_paymentId = Some 10, ar_planId = Some 2\<rparr> cap2
       = (Inr (Existing (Some (?x, Some ?std))), cap2)"
    using sb pl by simp
  have fr: "Subscription_findById cap1 (next_oid cap1) = None" by code_simp
  have c: "verifyPayment sig_ok (t0 + 1000) ''B'' (verify_req ''o1'' 10) cap1
             = (Inr (SubscriptionActivated ?x), cap2)"
    unfolding cap2_def by code_simp
  from replay_is_idempotent [THEN conjunct2, THEN conjunct2, THEN conjunct1, rule_format,
      OF conjI [OF c fr], of "t0 + 8000" "''Y''"]
  have t: "\<exists>p'. verifyPayment sig_ok (t0 + 8000) ''Y'' (verify_req ''o1'' 10) cap2
               = (Inr (AlreadyProcessed p' (Some (?x, Some ?std))), cap2)"
    using pl by simp
  from replay_is_idempotent [THEN conjunct2, THEN conjunct2, THEN conjunct2, rule_format, OF c]
  have o: "subscriptions cap2 = subscriptions cap1 @ [?x]"
    by simp
  from h v a fr c t o show ?thesis by simp
qed

section \<open>Two handlers and one payment\<close>

text \<open>
  C9. The claim has the transition into completed be a compare-and-set on the stored
  status being pending, so that of two concurrent runs for one payment exactly one
  completes it and the other takes the replay path. The handler loads the payment, and
  all it does after the load (\<open>reconcile\<close>) works on the loaded document: it decides on
  the status it loaded, and \<open>markCompleted\<close> sets completed whatever that status is. Two
  verifications of renew-payment 30 both load it while it is pending. The first renews
  subscription 20 and leaves the payment completed and linked. The second, with its
  pending copy and the store the first has left, renews subscription 20 again: two
  billing-history entries for the one payment and 65 days instead of 35; a verification
  that loads after the first has finished changes nothing. A verification that loaded
  payment 10 before the webhook completed it completes it once more: status, invoice
  number, completion time and gateway payment id are written a second time. And a failed
  payment is set to completed as well.
\<close>

theorem stale_read_completes_twice:
  "Payment_findById renew0 30 = Some pending_renewal \<and> pay_status pending_renewal = PPending
   \<and> fst (reconcile t0 ''R'' (verify_req ''o30'' 30) pending_renewal renew0)
       = Inr (SubscriptionRenewed
               \<lparr>sub_id = 20, sub_user = 7, sub_plan = 1, sub_status = SActive,
                startDate = t0 - 25 * ms_per_day, endDate = t0 + 35 * ms_per_day,
                paymentId = Some 18, cancelledAt = None, cancellationReason = None,
                billingHistory = [\<lparr>be_date = t0, be_amount = 19900, be_paymentId = 30,
                                   be_status = BSuccess\<rparr>]\<rparr>)
   \<and> map_option pay_status (Payment_findById race1 30) = Some PCompleted
   \<and> map_option pay_subscription (Payment_findById race1 30) = Some (Some 20)
   \<and> snd (verifyPayment sig_ok (t0 + 1) ''S'' (verify_req ''o30'' 30) race1) = race1
   \<and> fst (reconcile (t0 + 1) ''S'' (verify_req ''o30'' 30) pending_renewal race1)
       = Inr (SubscriptionRenewed
               \<lparr>sub_id = 20, sub_user = 7, sub_plan = 1, sub_status = SActive,
                startDate = t0 - 25 * ms_per_day, endDate = t0 + 65 * ms_per_day,
                paymentId = Some 18, cancelledAt = None, cancellationReason = None,
                billingHistory = [\<lparr>be_date = t0, be_amount = 19900, be_paymentId = 30,
                                   be_status = BSuccess\<rparr>,
                                  \<lparr>be_date = t0 + 1, be_amount = 19900, be_paymentId = 30,
                                   be_status = BSuccess\<rparr>]\<rparr>)
   \<and> map_option (\<lambda>x. (endDate x, length (billingHistory x)))
        (Subscription_findById
           (snd (reconcile (t0 + 1) ''S'' (verify_req ''o30'' 30) pending_renewal race1)) 20)
       = Some (t0 + 65 * ms_per_day, 2)
   \<and> Payment_findById hook2 10 = Some pending_purchase
   \<and> map_option (\<lambda>p. (pay_status p, invoiceNumber p, completedAt p, razorpayPaymentId p))
        (Payment_findById hook3 10)
       = Some (PCompleted, Some ''INV-C'', Some (t0 + 2000), Some ''pay_w'')
   \<and> map_option (\<lambda>p. (pay_status p, invoiceNumber p, completedAt p, razorpayPaymentId p))
        (Payment_findById
           (snd (reconcile (t0 + 9000) ''Z'' (verify_req ''o1'' 10) pending_purchase hook3)) 10)
       = Some (PCompleted, Some ''INV-Z'', Some (t0 + 9000), Some ''pay_o1'')
   \<and> pay_status (markFailed ''no'' pending_purchase) = PFailed
   \<and> pay_status (markCompleted (t0 + 9000) ''Z'' (Some ''pay_x'') None None
                    (markFailed ''no'' pending_purchase)) = PCompleted"
  by code_simp

end
